theory Spec2Isabelle
  imports Main
begin

section \<open>JavaScript strings\<close>

text \<open>
  A JavaScript string is a sequence of UTF-16 code units. It is modelled as the list of
  the code units' values, so that the bullet U+2022 of the criteria documents and the
  Unicode white space that \<^verbatim>\<open>trim()\<close> removes can be written down. \<open>str\<close> turns an
  ASCII literal into such a list.
\<close>

type_synonym jsstring = "nat list"

definition str :: "string \<Rightarrow> jsstring" where
  "str s = map of_char s"

text \<open>\<^verbatim>\<open>s.startsWith(p)\<close>\<close>

fun startsWith :: "jsstring \<Rightarrow> jsstring \<Rightarrow> bool" where
  "startsWith s [] = True"
| "startsWith [] (p # ps) = False"
| "startsWith (c # cs) (p # ps) = (c = p \<and> startsWith cs ps)"

text \<open>\<^verbatim>\<open>s.includes(m)\<close>: \<open>m\<close> occurs in \<open>s\<close> as a contiguous run of code units.\<close>

fun includesStr :: "jsstring \<Rightarrow> jsstring \<Rightarrow> bool" where
  "includesStr [] m = (m = [])"
| "includesStr (c # cs) m = (startsWith (c # cs) m \<or> includesStr cs m)"

text \<open>
  \<^verbatim>\<open>x || ''\<close> for a field that may be \<^verbatim>\<open>null\<close> or \<^verbatim>\<open>undefined\<close>, and the truthiness of
  such a field (\<^verbatim>\<open>null\<close>, \<^verbatim>\<open>undefined\<close> and the empty string are falsy).
\<close>

definition orEmpty :: "jsstring option \<Rightarrow> jsstring" where
  "orEmpty x = (case x of None \<Rightarrow> [] | Some s \<Rightarrow> s)"

definition truthy :: "jsstring option \<Rightarrow> bool" where
  "truthy x = (case x of None \<Rightarrow> False | Some s \<Rightarrow> s \<noteq> [])"


section \<open>The testing evaluator: \<^verbatim>\<open>calculateFinalScore\<close>\<close>

text \<open>
  The evaluation is the JSON object that \<^verbatim>\<open>parseEvaluationResponse\<close> returns. The
  fields read by \<^verbatim>\<open>calculateFinalScore\<close> are the four \<^verbatim>\<open>score\<close> numbers (integers, as
  the prompt asks for), the error list and \<^verbatim>\<open>overallAssessment.readyForDeployment\<close>
  (a JSON boolean). \<^verbatim>\<open>parseEvaluationResponse\<close> checks that the six sections are
  present and nothing else: it does not look at the value of a score.
\<close>

record evalError =
  severity :: jsstring
  errType :: jsstring
  errDescription :: jsstring

record evaluation =
  requirementsCoverage_score :: int
  qualityCraftsmanship_score :: int
  usabilityPracticality_score :: int
  completenessPolish_score :: int
  errors :: "evalError list"
  overallAssessment_readyForDeployment :: bool

record breakdown =
  requirementsCoverage :: int
  qualityCraftsmanship :: int
  usabilityPracticality :: int
  completenessPolish :: int

record finalScore =
  overallScore :: int
  maxScore :: int
  scorePercentage :: int
  errorCount :: nat
  criticalErrors :: nat
  highErrors :: nat
  blockingErrors :: nat
  meetsCriteria :: bool
  passingScore :: int
  readyForDeployment :: bool
  coreRequirementsMet :: bool
  breakdown :: breakdown

definition calculateFinalScore :: "evaluation \<Rightarrow> finalScore" where
  "calculateFinalScore evaluation =
    (let scores = [requirementsCoverage_score evaluation,
                   qualityCraftsmanship_score evaluation,
                   usabilityPracticality_score evaluation,
                   completenessPolish_score evaluation];
         overall = foldl (\<lambda>sum score. sum + score) 0 scores;
         errorCnt = length (errors evaluation);
         critical = length (filter (\<lambda>e. severity e = str ''CRITICAL'') (errors evaluation));
         high = length (filter (\<lambda>e. severity e = str ''HIGH'') (errors evaluation));
         PASSING_SCORE = 80;
         hasBlockingErrors = (critical > 0 \<or> high > 0);
         coreMet = (requirementsCoverage_score evaluation \<ge> 20);
         meets = (overall \<ge> PASSING_SCORE \<and> \<not> hasBlockingErrors \<and> coreMet
                  \<and> overallAssessment_readyForDeployment evaluation)
     in \<lparr> overallScore = overall,
          maxScore = 100,
          scorePercentage = overall,
          errorCount = errorCnt,
          criticalErrors = critical,
          highErrors = high,
          blockingErrors = critical + high,
          meetsCriteria = meets,
          passingScore = PASSING_SCORE,
          readyForDeployment = overallAssessment_readyForDeployment evaluation,
          coreRequirementsMet = coreMet,
          breakdown = \<lparr> requirementsCoverage = requirementsCoverage_score evaluation,
                        qualityCraftsmanship = qualityCraftsmanship_score evaluation,
                        usabilityPracticality = usabilityPracticality_score evaluation,
                        completenessPolish = completenessPolish_score evaluation \<rparr> \<rparr>)"



section \<open>Webhook payloads\<close>

text \<open>
  The part of a Jira webhook payload that the processor reads. A label of the payload is
  either a plain string or an object with a \<^verbatim>\<open>name\<close> field; the code meets both
  (\<^verbatim>\<open>updateStageLabel\<close> tests \<^verbatim>\<open>typeof label === 'string'\<close>). \<^verbatim>\<open>fields.summary\<close>,
  \<^verbatim>\<open>fields.description\<close> and \<^verbatim>\<open>fields.labels\<close> may be absent or \<^verbatim>\<open>null\<close>, which the
  code does not tell apart. \<^verbatim>\<open>issue.key\<close> may be absent, \<^verbatim>\<open>null\<close> or a string: the
  first two are both falsy, and they differ in the text they leave in a template.
  \<^verbatim>\<open>fields.issuetype.name\<close> and \<^verbatim>\<open>fields.status.name\<close> are read without a guard and
  are taken to be present. The changelog is the list of the \<^verbatim>\<open>field\<close> names of its items,
  \<open>None\<close> when \<^verbatim>\<open>changelog\<close> or \<^verbatim>\<open>changelog.items\<close> is missing.
\<close>

datatype label = LabelString jsstring | LabelObject jsstring

datatype jskey = KeyUndefined | KeyNull | Key jsstring

text \<open>\<^verbatim>\<open>!issue.key\<close> is false for a non-empty string only.\<close>

definition truthyKey :: "jskey \<Rightarrow> bool" where
  "truthyKey k = (case k of KeyUndefined \<Rightarrow> False | KeyNull \<Rightarrow> False | Key s \<Rightarrow> s \<noteq> [])"

record issue =
  key :: jskey
  issuetype_name :: jsstring
  status_name :: jsstring
  summary :: "jsstring option"
  description :: "jsstring option"
  labels :: "label list option"

record webhookPayload =
  webhookEvent :: "jsstring option"
  issue :: "issue option"
  changelog_items :: "jsstring list option"


section \<open>Validation and classification\<close>

definition supportedEvents :: "jsstring list" where
  "supportedEvents = [str ''jira:issue_created'', str ''jira:issue_updated'']"

definition actionableStatuses :: "jsstring list" where
  "actionableStatuses = [str ''Ready for Implementation'', str ''In Progress'',
                         str ''Ready for Development'', str ''Testing Criteria'']"

definition isValidWebhookEvent :: "webhookPayload \<Rightarrow> bool" where
  "isValidWebhookEvent webhookPayload =
    (if \<not> (case webhookEvent webhookPayload of
               None \<Rightarrow> False
             | Some e \<Rightarrow> e \<in> set supportedEvents) then False
     else case issue webhookPayload of
       None \<Rightarrow> False
     | Some i \<Rightarrow>
         if \<not> truthyKey (key i) then False
         else if issuetype_name i \<notin> set [str ''Story'', str ''Task''] then False
         else if webhookEvent webhookPayload = Some (str ''jira:issue_updated'') then
           (let isStatusChange =
                  (case changelog_items webhookPayload of
                     None \<Rightarrow> False
                   | Some items \<Rightarrow> list_ex (\<lambda>item. item = str ''status'') items)
            in if \<not> isStatusChange then False
               else if includesStr (orEmpty (summary i)) (str ''Deliverable Criteria:'') then
                 (if status_name i \<notin> set actionableStatuses then False else True)
               else False)
         else True)"

datatype classification = initial_inquiry | deliverable_criteria | testing_criteria | ignore

definition claudeMarkers :: "jsstring list" where
  "claudeMarkers = [str ''Claude Generated'', str ''*Touched by Claude*'',
                    str ''Deliverable Criteria:'', str ''Implementation:'',
                    str ''*Generated by Claude Automation System*'']"

text \<open>The loop over the markers returns at the first one found in either text.\<close>

fun hasMarkerIn :: "jsstring list \<Rightarrow> jsstring \<Rightarrow> jsstring \<Rightarrow> bool" where
  "hasMarkerIn [] summaryText descriptionText = False"
| "hasMarkerIn (marker # markers) summaryText descriptionText =
     (if includesStr summaryText marker \<or> includesStr descriptionText marker then True
      else hasMarkerIn markers summaryText descriptionText)"

definition hasClaudeMarkers :: "jsstring \<Rightarrow> jsstring \<Rightarrow> bool" where
  "hasClaudeMarkers summaryText descriptionText =
     hasMarkerIn claudeMarkers summaryText descriptionText"

text \<open>
  \<^verbatim>\<open>isReadyForImplementation\<close> and \<^verbatim>\<open>classifyIssueType\<close> receive the payload and read
  nothing but its issue; the model passes the issue.
\<close>

definition isReadyForImplementation :: "issue \<Rightarrow> bool" where
  "isReadyForImplementation i =
     (status_name i \<in> set [str ''Ready for Implementation'', str ''In Progress'',
                            str ''Ready for Development''])"

definition classifyIssueType :: "issue \<Rightarrow> classification" where
  "classifyIssueType i =
    (let summaryText = orEmpty (summary i);
         descriptionText = orEmpty (description i);
         status = status_name i
     in if \<not> hasClaudeMarkers summaryText descriptionText then initial_inquiry
        else if includesStr summaryText (str ''Deliverable Criteria:'') then
          (if status = str ''Testing Criteria'' then testing_criteria
           else if isReadyForImplementation i then deliverable_criteria
           else ignore)
        else ignore)"


section \<open>Extraction of the original issue key\<close>

text \<open>
  The four regular expressions of \<^verbatim>\<open>extractOriginalIssueKey\<close>. \<^verbatim>\<open>String.match\<close> tries the
  start positions from left to right and, at each, the pattern with greedy quantifiers.
  \<open>regexSearch m s\<close> is that scan for a matcher \<open>m\<close> of the pattern at the start of a text.
  In these four patterns every quantified class is followed by a character outside the
  class (or by nothing), so giving back characters of a greedy run never turns a failed
  match into a success: the longest run is the only one to try.
\<close>

definition isDigit :: "nat \<Rightarrow> bool" where
  "isDigit c = (48 \<le> c \<and> c \<le> 57)"

definition isUpper :: "nat \<Rightarrow> bool" where
  "isUpper c = (65 \<le> c \<and> c \<le> 90)"

definition isLetter :: "nat \<Rightarrow> bool" where
  "isLetter c = ((65 \<le> c \<and> c \<le> 90) \<or> (97 \<le> c \<and> c \<le> 122))"

definition hyphen :: nat where
  "hyphen = 45"

fun regexSearch :: "(jsstring \<Rightarrow> jsstring option) \<Rightarrow> jsstring \<Rightarrow> jsstring option" where
  "regexSearch m [] = m []"
| "regexSearch m (c # cs) =
     (case m (c # cs) of Some r \<Rightarrow> Some r | None \<Rightarrow> regexSearch m cs)"

text \<open>\<^verbatim>\<open>-\d+\<close> at the start of a text: the hyphen and the longest run of digits, at least one.\<close>

definition hyphenDigits :: "jsstring \<Rightarrow> jsstring option" where
  "hyphenDigits s =
     (case s of
        [] \<Rightarrow> None
      | c # r \<Rightarrow> if c = hyphen \<and> takeWhile isDigit r \<noteq> []
                 then Some (hyphen # takeWhile isDigit r) else None)"

text \<open>\<^verbatim>\<open>/(PCP1-\d+)/\<close>\<close>

definition projectSpecificAt :: "jsstring \<Rightarrow> jsstring option" where
  "projectSpecificAt s =
     (if startsWith s (str ''PCP1'') then
        (case hyphenDigits (drop 4 s) of
           None \<Rightarrow> None
         | Some t \<Rightarrow> Some (str ''PCP1'' @ t))
      else None)"

text \<open>\<^verbatim>\<open>/([A-Z]{2,}-\d+)/\<close>\<close>

definition genericAt :: "jsstring \<Rightarrow> jsstring option" where
  "genericAt s =
     (let letters = takeWhile isUpper s in
      if 2 \<le> length letters then
        (case hyphenDigits (dropWhile isUpper s) of
           None \<Rightarrow> None
         | Some t \<Rightarrow> Some (letters @ t))
      else None)"

text \<open>\<^verbatim>\<open>/([A-Za-z]+\d*-\d+)/\<close>\<close>

definition permissiveAt :: "jsstring \<Rightarrow> jsstring option" where
  "permissiveAt s =
     (let letters = takeWhile isLetter s;
          rest = dropWhile isLetter s;
          digits = takeWhile isDigit rest
      in if letters \<noteq> [] then
           (case hyphenDigits (dropWhile isDigit rest) of
              None \<Rightarrow> None
            | Some t \<Rightarrow> Some (letters @ digits @ t))
         else None)"

text \<open>\<^verbatim>\<open>/\*\*Original Issue:\*\* ([A-Z]+-\d+)/\<close>; the result is the group, without the label.\<close>

definition originalIssueLineAt :: "jsstring \<Rightarrow> jsstring option" where
  "originalIssueLineAt s =
     (if startsWith s (str ''**Original Issue:** '') then
        (let r = drop (length (str ''**Original Issue:** '')) s;
             letters = takeWhile isUpper r
         in if letters \<noteq> [] then
              (case hyphenDigits (dropWhile isUpper r) of
                 None \<Rightarrow> None
               | Some t \<Rightarrow> Some (letters @ t))
            else None)
      else None)"

definition extractOriginalIssueKey :: "jsstring option \<Rightarrow> jsstring option \<Rightarrow> jsstring option" where
  "extractOriginalIssueKey summaryArg descriptionArg =
    (case (if truthy summaryArg then
             (case regexSearch projectSpecificAt (orEmpty summaryArg) of
                Some k \<Rightarrow> Some k
              | None \<Rightarrow>
                 (case regexSearch genericAt (orEmpty summaryArg) of
                    Some k \<Rightarrow> Some k
                  | None \<Rightarrow> regexSearch permissiveAt (orEmpty summaryArg)))
           else None) of
       Some k \<Rightarrow> Some k
     | None \<Rightarrow>
        (if truthy descriptionArg
         then regexSearch originalIssueLineAt (orEmpty descriptionArg)
         else None))"

definition validateClaudeGeneratedCriteria :: "issue \<Rightarrow> bool" where
  "validateClaudeGeneratedCriteria i =
    (let summaryText = orEmpty (summary i);
         descriptionText = orEmpty (description i)
     in if \<not> includesStr summaryText (str ''Deliverable Criteria:'') then False
        else if \<not> includesStr descriptionText (str ''*Generated by Claude Automation System*'')
          then False
        else True)"


section \<open>Section extraction\<close>

text \<open>
  Both \<^verbatim>\<open>extractSection\<close> methods build the same regular expression
  \<^verbatim>\<open>new RegExp(`## ${sectionName}([\\s\\S]*?)(?=##|$)`, 'i')\<close> and differ in what they do
  with the lines of the match. The section name is spliced into the pattern, so the model
  is the code's behaviour for names made of ASCII letters, digits and spaces
  (\<open>plainSectionName\<close>), which have no special meaning in a pattern; the five names the
  code passes are of this kind. Under the \<^verbatim>\<open>i\<close> flag an ASCII pattern character matches
  a code unit exactly when the two agree after ASCII upper-casing (a code unit above 127
  never canonicalises to an ASCII one).
\<close>

definition bullet :: nat where
  "bullet = 8226"

definition newline :: nat where
  "newline = 10"

definition plainSectionName :: "jsstring \<Rightarrow> bool" where
  "plainSectionName n = list_all (\<lambda>c. isLetter c \<or> isDigit c \<or> c = 32) n"

definition asciiUpper :: "nat \<Rightarrow> nat" where
  "asciiUpper c = (if 97 \<le> c \<and> c \<le> 122 then c - 32 else c)"

fun startsWithIgnoreCase :: "jsstring \<Rightarrow> jsstring \<Rightarrow> bool" where
  "startsWithIgnoreCase s [] = True"
| "startsWithIgnoreCase [] (p # ps) = False"
| "startsWithIgnoreCase (c # cs) (p # ps) =
     (asciiUpper c = asciiUpper p \<and> startsWithIgnoreCase cs ps)"

text \<open>
  \<^verbatim>\<open>([\s\S]*?)(?=##|$)\<close>: the shortest run of arbitrary code units that is followed by
  \<^verbatim>\<open>##\<close> or by the end of the text.
\<close>

fun untilHeading :: "jsstring \<Rightarrow> jsstring" where
  "untilHeading [] = []"
| "untilHeading (c # cs) =
     (if startsWith (c # cs) [35, 35] then [] else c # untilHeading cs)"

text \<open>
  \<^verbatim>\<open>text.match(regex)\<close>, group 1: the heading is looked for from left to right; where it
  is found the lazy group always finds its end, so the first occurrence decides.
\<close>

fun sectionMatch :: "jsstring \<Rightarrow> jsstring \<Rightarrow> jsstring option" where
  "sectionMatch heading [] = (if startsWithIgnoreCase [] heading then Some [] else None)"
| "sectionMatch heading (c # cs) =
     (if startsWithIgnoreCase (c # cs) heading
      then Some (untilHeading (drop (length heading) (c # cs)))
      else sectionMatch heading cs)"

text \<open>\<^verbatim>\<open>s.split('\n')\<close>\<close>

fun splitLines :: "jsstring \<Rightarrow> jsstring list" where
  "splitLines [] = [[]]"
| "splitLines (c # cs) =
     (if c = newline then [] # splitLines cs
      else (case splitLines cs of
              [] \<Rightarrow> [[c]]
            | l # ls \<Rightarrow> (c # l) # ls))"

text \<open>
  White space and line terminators of ECMAScript, which \<^verbatim>\<open>trim()\<close> removes and \<^verbatim>\<open>\s\<close>
  matches.
\<close>

definition isWhiteSpace :: "nat \<Rightarrow> bool" where
  "isWhiteSpace c =
     (c \<in> set [9, 10, 11, 12, 13, 32, 160, 5760, 8232, 8233, 8239, 8287, 12288, 65279]
      \<or> (8192 \<le> c \<and> c \<le> 8202))"

definition trim :: "jsstring \<Rightarrow> jsstring" where
  "trim s = rev (dropWhile isWhiteSpace (rev (dropWhile isWhiteSpace s)))"

text \<open>The method of \<^verbatim>\<open>JiraWebhookProcessor\<close>.\<close>

definition processor_extractSection :: "jsstring \<Rightarrow> jsstring \<Rightarrow> jsstring list" where
  "processor_extractSection text sectionName =
    (case sectionMatch (str ''## '' @ sectionName) text of
       None \<Rightarrow> []
     | Some body \<Rightarrow>
         map (\<lambda>line. trim (remove1 bullet line))
           (filter (\<lambda>line. startsWith (trim line) [bullet]) (splitLines body)))"

text \<open>
  \<^verbatim>\<open>line.replace(/^[\<bullet>-]\s*/, '')\<close>: without the \<^verbatim>\<open>m\<close> flag the anchor is the start of
  the line's text, so the bullet is removed only when it is the first code unit.
\<close>

definition stripLeadingBullet :: "jsstring \<Rightarrow> jsstring" where
  "stripLeadingBullet line =
     (case line of
        [] \<Rightarrow> []
      | c # r \<Rightarrow> if c = bullet \<or> c = hyphen then dropWhile isWhiteSpace r else line)"

text \<open>The method of \<^verbatim>\<open>ClaudeTestingEvaluator\<close>.\<close>

definition evaluator_extractSection :: "jsstring \<Rightarrow> jsstring \<Rightarrow> jsstring list" where
  "evaluator_extractSection text sectionName =
    (case sectionMatch (str ''## '' @ sectionName) text of
       None \<Rightarrow> []
     | Some body \<Rightarrow>
         filter (\<lambda>line. length line > 0)
           (map (\<lambda>line. trim (stripLeadingBullet line))
             (filter (\<lambda>line. startsWith (trim line) [bullet] \<or> startsWith (trim line) [hyphen])
               (splitLines body))))"

record requirements =
  functionalRequirements :: "jsstring list"
  technicalRequirements :: "jsstring list"
  acceptanceCriteria :: "jsstring list"
  validationTests :: "jsstring list"
  definitionOfDone :: "jsstring list"

definition extractRequirementsFromCriteria :: "issue \<Rightarrow> requirements" where
  "extractRequirementsFromCriteria criteriaIssue =
    (let descriptionText = orEmpty (description criteriaIssue)
     in \<lparr> functionalRequirements =
            processor_extractSection descriptionText (str ''Functional Requirements''),
          technicalRequirements =
            processor_extractSection descriptionText (str ''Technical Requirements''),
          acceptanceCriteria =
            processor_extractSection descriptionText (str ''Acceptance Criteria''),
          validationTests =
            processor_extractSection descriptionText (str ''Validation Tests''),
          definitionOfDone =
            processor_extractSection descriptionText (str ''Definition of Done'') \<rparr>)"


section \<open>The outside world\<close>

text \<open>
  The tracker, the implementation adapter and the artifact store are outside the
  processor. Every call to one of them is recorded in \<open>calls\<close>, in order, and may throw:
  \<open>faults w n\<close> is the message of the error that the call number \<open>n\<close> (counted from 0
  over the whole run) throws, \<open>None\<close> if that call goes through. \<open>tracker\<close> holds the
  label list of every issue the tracker knows. \<open>adapterReply\<close> and \<open>artifactFiles\<close> are
  what the adapter and the artifact writer return when they do not throw.

  A thrown JavaScript error is a value \<open>Inl e\<close>; the code only ever reads its message.
\<close>

datatype exn = Error jsstring | TypeError jsstring

fun message :: "exn \<Rightarrow> jsstring" where
  "message (Error m) = m"
| "message (TypeError m) = m"

record implementationResult =
  implementation_type :: jsstring
  implementation_title :: jsstring

datatype call =
    AddComment jsstring jsstring
  | GetIssue jsstring
  | UpdateIssueLabels jsstring "jsstring list"
  | GenerateImplementation jsstring jsstring requirements
  | CreateImplementationArtifacts jsstring

record world =
  calls :: "call list"
  faults :: "nat \<Rightarrow> jsstring option"
  tracker :: "jsstring \<Rightarrow> label list option"
  adapterReply :: implementationResult
  artifactFiles :: "jsstring list"

definition external :: "call \<Rightarrow> world \<Rightarrow> (exn + unit) \<times> world" where
  "external c w =
    (case faults w (length (calls w)) of
       Some msg \<Rightarrow> (Inl (Error msg), w\<lparr>calls := calls w @ [c]\<rparr>)
     | None \<Rightarrow> (Inr (), w\<lparr>calls := calls w @ [c]\<rparr>))"

text \<open>
  An absent \<^verbatim>\<open>issue.key\<close> reaches the tracker's URL and the comment templates as the
  text \<^verbatim>\<open>undefined\<close>, a \<^verbatim>\<open>null\<close> one as the text \<^verbatim>\<open>null\<close>.
\<close>

definition keyText :: "jskey \<Rightarrow> jsstring" where
  "keyText k =
     (case k of KeyUndefined \<Rightarrow> str ''undefined'' | KeyNull \<Rightarrow> str ''null'' | Key s \<Rightarrow> s)"

text \<open>\<^verbatim>\<open>jiraApi.addComment\<close>, \<^verbatim>\<open>jiraApi.getIssue\<close> (of which only the labels are read) and
  \<^verbatim>\<open>jiraApi.updateIssue\<close> with a \<^verbatim>\<open>labels\<close> field.\<close>

definition addComment :: "jsstring \<Rightarrow> jsstring \<Rightarrow> world \<Rightarrow> (exn + unit) \<times> world" where
  "addComment issueKey comment w = external (AddComment issueKey comment) w"

definition getIssue :: "jsstring \<Rightarrow> world \<Rightarrow> (exn + label list) \<times> world" where
  "getIssue issueKey w =
    (case external (GetIssue issueKey) w of
       (Inl e, w1) \<Rightarrow> (Inl e, w1)
     | (Inr u, w1) \<Rightarrow>
         (case tracker w1 issueKey of
            None \<Rightarrow> (Inl (Error (str ''Failed to fetch issue '' @ issueKey @ str '': 404'')), w1)
          | Some ls \<Rightarrow> (Inr ls, w1)))"

definition updateIssue :: "jsstring \<Rightarrow> jsstring list \<Rightarrow> world \<Rightarrow> (exn + unit) \<times> world" where
  "updateIssue issueKey newLabels w =
    (case external (UpdateIssueLabels issueKey newLabels) w of
       (Inl e, w1) \<Rightarrow> (Inl e, w1)
     | (Inr u, w1) \<Rightarrow>
         (Inr (), w1\<lparr>tracker := (tracker w1)(issueKey \<mapsto> map LabelString newLabels)\<rparr>))"

definition formatComment :: "jsstring \<Rightarrow> jsstring \<Rightarrow> jsstring option \<Rightarrow> jsstring" where
  "formatComment title content footer =
    (let comment = str ''**'' @ title @ str ''**'' @ [newline, newline] @ content
     in if truthy footer then comment @ [newline, newline] @ orEmpty footer else comment)"

text \<open>
  \<^verbatim>\<open>implementationAgent.generateImplementation\<close> and \<^verbatim>\<open>createImplementationArtifacts\<close>,
  each taken as one step of the outside world that returns or throws.
\<close>

definition generateImplementation ::
  "issue \<Rightarrow> jsstring \<Rightarrow> requirements \<Rightarrow> world \<Rightarrow> (exn + implementationResult) \<times> world" where
  "generateImplementation criteriaIssue originalKey reqs w =
    (case external (GenerateImplementation (keyText (key criteriaIssue)) originalKey reqs) w of
       (Inl e, w1) \<Rightarrow> (Inl e, w1)
     | (Inr u, w1) \<Rightarrow> (Inr (adapterReply w1), w1))"

definition createImplementationArtifacts ::
  "jsstring \<Rightarrow> implementationResult \<Rightarrow> world \<Rightarrow> (exn + jsstring list) \<times> world" where
  "createImplementationArtifacts originalKey implementation w =
    (case external (CreateImplementationArtifacts originalKey) w of
       (Inl e, w1) \<Rightarrow> (Inl e, w1)
     | (Inr u, w1) \<Rightarrow> (Inr (artifactFiles w1), w1))"


section \<open>The stage tracker\<close>

text \<open>
  \<^verbatim>\<open>getHighestStageCompleted\<close> maps every label to its \<^verbatim>\<open>name\<close> property, which a plain
  string does not have: a string label yields \<^verbatim>\<open>undefined\<close> and matches no stage tag.
\<close>

definition labelNameProperty :: "label \<Rightarrow> jsstring option" where
  "labelNameProperty l = (case l of LabelString s \<Rightarrow> None | LabelObject n \<Rightarrow> Some n)"

definition getHighestStageCompleted :: "issue \<Rightarrow> jsstring" where
  "getHighestStageCompleted i =
    (let names = (case labels i of None \<Rightarrow> [] | Some ls \<Rightarrow> map labelNameProperty ls)
     in if Some (str ''claude-stage-tested'') \<in> set names then str ''tested''
        else if Some (str ''claude-stage-implemented'') \<in> set names then str ''implemented''
        else if Some (str ''claude-stage-analyzed'') \<in> set names then str ''analyzed''
        else str ''none'')"

definition stageLabels :: "jsstring list" where
  "stageLabels = [str ''claude-stage-analyzed'', str ''claude-stage-implemented'',
                  str ''claude-stage-tested'']"

text \<open>\<^verbatim>\<open>typeof label === 'string' ? label : label.name\<close>\<close>

definition labelName :: "label \<Rightarrow> jsstring" where
  "labelName l = (case l of LabelString s \<Rightarrow> s | LabelObject n \<Rightarrow> n)"

text \<open>
  \<^verbatim>\<open>updateStageLabel\<close> catches whatever the fetch or the write throws and does not rethrow,
  so it returns normally in every case; what it leaves behind is the new world.
\<close>

definition updateStageLabel :: "jsstring \<Rightarrow> jsstring \<Rightarrow> world \<Rightarrow> world" where
  "updateStageLabel issueKey newStage w =
    (let newLabel = str ''claude-stage-'' @ newStage
     in case getIssue issueKey w of
          (Inl e, w1) \<Rightarrow> w1
        | (Inr currentLabels, w1) \<Rightarrow>
            (let nonStageLabels =
                   filter (\<lambda>l. labelName l \<notin> set stageLabels) currentLabels;
                 updatedLabels = map labelName nonStageLabels @ [newLabel]
             in case updateIssue issueKey updatedLabels w1 of
                  (Inl e, w2) \<Rightarrow> w2
                | (Inr u, w2) \<Rightarrow> w2))"

text \<open>
  The class \<^verbatim>\<open>JiraWebhookProcessor\<close> defines no method \<^verbatim>\<open>hasOverrideLabel\<close> and no method
  \<^verbatim>\<open>removeOverrideLabel\<close>, and nothing else in the repository adds one: the two
  properties that the phases test before calling them are \<^verbatim>\<open>undefined\<close>.
\<close>

definition hasOverrideLabel :: "(issue \<Rightarrow> jsstring \<Rightarrow> bool) option" where
  "hasOverrideLabel = None"

definition removeOverrideLabel ::
  "(jsstring \<Rightarrow> jsstring \<Rightarrow> world \<Rightarrow> (exn + unit) \<times> world) option" where
  "removeOverrideLabel = None"


section \<open>The deliverable-criteria phase\<close>

datatype outcome =
    Ignored jsstring
  | Skipped jsstring jsstring jskey jsstring
  | ImplementationFailed jskey jsstring jsstring jsstring
  | ArtifactsFailed jskey jsstring implementationResult jsstring jsstring
  | ImplementationGenerated jskey jsstring implementationResult "jsstring list"
  | SystemError jskey jsstring jsstring
  | OtherOutcome jsstring

text \<open>The \<^verbatim>\<open>action\<close> field of the returned object.\<close>

fun action :: "outcome \<Rightarrow> jsstring" where
  "action (Ignored reason) = str ''ignored''"
| "action (Skipped reason stage criteriaIssue originalIssue) = str ''skipped''"
| "action (ImplementationFailed criteriaIssue originalIssue err errorType) =
     str ''implementation_failed''"
| "action (ArtifactsFailed criteriaIssue originalIssue implementation err errorType) =
     str ''artifacts_failed''"
| "action (ImplementationGenerated criteriaIssue originalIssue implementation files) =
     str ''implementation_generated''"
| "action (SystemError criteriaIssue err errorType) = str ''system_error''"
| "action (OtherOutcome a) = a"

definition joinLines :: "jsstring list \<Rightarrow> jsstring" where
  "joinLines xs = (case xs of [] \<Rightarrow> [] | y # ys \<Rightarrow> foldl (\<lambda>acc l. acc @ [newline] @ l) y ys)"

definition skippedComment :: "jsstring \<Rightarrow> jsstring" where
  "skippedComment highestStage =
    formatComment (str ''Implementation Skipped'')
      (str ''Implementation was skipped because it has already been completed (stage: ''
         @ highestStage @ str '').'' @ [newline, newline]
         @ str ''To force regeneration, add the label `claude-force-reimplement` and try again.'')
      (Some (str ''*Skipped by Claude Automation System*''))"

definition generationFailedComment :: "jsstring \<Rightarrow> jsstring" where
  "generationFailedComment msg =
    formatComment (str ''Implementation Generation Failed'')
      (str ''An error occurred during automated implementation generation:''
         @ [newline, newline] @ str ''`'' @ msg @ str ''`'' @ [newline, newline]
         @ str ''Please review the deliverable criteria and try again.'')
      (Some (str ''*Error logged by Claude Automation System*''))"

definition artifactsFailedComment :: "jsstring \<Rightarrow> jsstring" where
  "artifactsFailedComment msg =
    formatComment (str ''Artifacts Creation Failed'')
      (str ''Implementation was generated successfully, but failed to create file artifacts:''
         @ [newline, newline] @ str ''`'' @ msg @ str ''`'' @ [newline, newline]
         @ str ''Please check file system permissions and try again.'')
      (Some (str ''*Error logged by Claude Automation System*''))"

definition generatedComment :: "jsstring \<Rightarrow> implementationResult \<Rightarrow> jsstring list \<Rightarrow> jsstring" where
  "generatedComment originalKey implementation files =
    formatComment (str ''Implementation Generated'')
      (str ''Claude has successfully generated the implementation for '' @ originalKey
         @ str ''.'' @ [newline, newline]
         @ str ''  **Implementation Details:**'' @ [newline]
         @ str ''  - Type: '' @ implementation_type implementation @ [newline]
         @ str ''  - Title: '' @ implementation_title implementation @ [newline, newline]
         @ str ''  **Artifacts Created:**'' @ [newline]
         @ str ''  '' @ joinLines (map (\<lambda>file. [bullet, 32] @ file) files) @ [newline, newline]
         @ str ''  **Next Steps:**'' @ [newline]
         @ str ''  1. Review generated implementation in repository'' @ [newline]
         @ str ''  2. Move to '' @ [34] @ str ''Testing Criteria'' @ [34]
         @ str '' status to trigger automated evaluation'' @ [newline]
         @ str ''  3. Or proceed with manual testing and review'' @ [newline, newline]
         @ str ''  **Repository Location:** `work-items/'' @ originalKey
         @ str ''/implementation/`'')
      (Some (str ''*Generated by Claude Automation System*''))"

definition systemErrorComment :: "jsstring \<Rightarrow> jsstring" where
  "systemErrorComment msg =
    formatComment (str ''Automation System Error'')
      (str ''An error occurred in the Claude automation system:''
         @ [newline, newline] @ str ''`'' @ msg @ str ''`'' @ [newline, newline]
         @ str ''Please check the system logs and try again, or proceed with manual processing.'')
      (Some (str ''*Error logged by Claude Automation System*''))"

text \<open>
  The body of the \<^verbatim>\<open>try\<close> block of \<^verbatim>\<open>processDeliverableCriteria\<close>. \<open>Inl e\<close> is an error
  that leaves the block and reaches the \<^verbatim>\<open>catch\<close> at the end of the method; the errors
  of the adapter and of the artifact writer are caught inside the block.
\<close>

definition deliverableCriteriaSteps ::
  "issue \<Rightarrow> jsstring \<Rightarrow> world \<Rightarrow> (exn + outcome) \<times> world" where
  "deliverableCriteriaSteps i originalKey w =
    (case getIssue originalKey w of
       (Inl e, w1) \<Rightarrow> (Inl e, w1)
     | (Inr originalIssue, w1) \<Rightarrow>
        (let reqs = extractRequirementsFromCriteria i
         in case generateImplementation i originalKey reqs w1 of
              (Inl implementationError, w2) \<Rightarrow>
                (case addComment (keyText (key i))
                        (generationFailedComment (message implementationError)) w2 of
                   (Inl e, w3) \<Rightarrow> (Inl e, w3)
                 | (Inr u, w3) \<Rightarrow>
                     (Inr (ImplementationFailed (key i) originalKey
                             (message implementationError)
                             (str ''claude_generation_failure'')), w3))
            | (Inr implementation, w2) \<Rightarrow>
                (case createImplementationArtifacts originalKey implementation w2 of
                   (Inl artifactsError, w3) \<Rightarrow>
                     (case addComment (keyText (key i))
                             (artifactsFailedComment (message artifactsError)) w3 of
                        (Inl e, w4) \<Rightarrow> (Inl e, w4)
                      | (Inr u, w4) \<Rightarrow>
                          (Inr (ArtifactsFailed (key i) originalKey implementation
                                  (message artifactsError)
                                  (str ''artifacts_creation_failure'')), w4))
                 | (Inr files, w3) \<Rightarrow>
                     (case addComment (keyText (key i))
                             (generatedComment originalKey implementation files) w3 of
                        (Inl e, w4) \<Rightarrow> (Inl e, w4)
                      | (Inr u, w4) \<Rightarrow>
                          (Inr (ImplementationGenerated (key i) originalKey
                                  implementation files),
                           updateStageLabel (keyText (key i)) (str ''implemented'') w4)))))"

definition deliverableCriteriaTry :: "issue \<Rightarrow> world \<Rightarrow> (exn + outcome) \<times> world" where
  "deliverableCriteriaTry i w =
    (if \<not> validateClaudeGeneratedCriteria i then
       (Inl (Error (str
          ''Deliverable criteria must be Claude-generated to proceed with implementation'')), w)
     else case extractOriginalIssueKey (summary i) (description i) of
       None \<Rightarrow>
         (Inl (Error (str
            ''Could not extract original issue key from deliverable criteria'')), w)
     | Some originalKey \<Rightarrow>
        (let highestStage = getHighestStageCompleted i;
             hasForceReimplement =
               (case hasOverrideLabel of
                  Some has \<Rightarrow> has i (str ''reimplement'')
                | None \<Rightarrow> False)
         in if (highestStage = str ''implemented'' \<or> highestStage = str ''tested'')
               \<and> \<not> hasForceReimplement then
              (case addComment (keyText (key i)) (skippedComment highestStage) w of
                 (Inl e, w1) \<Rightarrow> (Inl e, w1)
               | (Inr u, w1) \<Rightarrow>
                   (Inr (Skipped (str ''Implementation already exists'') highestStage
                           (key i) originalKey), w1))
            else
              (let w1 = (case (if hasForceReimplement then removeOverrideLabel else None) of
                           Some remove \<Rightarrow> snd (remove (keyText (key i)) (str ''reimplement'') w)
                         | None \<Rightarrow> w)
               in deliverableCriteriaSteps i originalKey w1)))"

text \<open>
  \<^verbatim>\<open>processDeliverableCriteria\<close>: the \<^verbatim>\<open>try\<close> block and its \<^verbatim>\<open>catch\<close>, which posts a
  comment with a bare \<^verbatim>\<open>await\<close> and then returns the \<^verbatim>\<open>system_error\<close> object. The issue
  is read from the payload before the \<^verbatim>\<open>try\<close>.
\<close>

definition processDeliverableCriteria ::
  "webhookPayload \<Rightarrow> world \<Rightarrow> (exn + outcome) \<times> world" where
  "processDeliverableCriteria webhookPayload w =
    (case issue webhookPayload of
       None \<Rightarrow>
         (Inl (TypeError (str ''Cannot read properties of undefined (reading 'key')'')), w)
     | Some i \<Rightarrow>
        (case deliverableCriteriaTry i w of
           (Inr result, w1) \<Rightarrow> (Inr result, w1)
         | (Inl error, w1) \<Rightarrow>
             (case addComment (keyText (key i)) (systemErrorComment (message error)) w1 of
                (Inl e, w2) \<Rightarrow> (Inl e, w2)
              | (Inr u, w2) \<Rightarrow>
                  (Inr (SystemError (key i) (message error) (str ''system_failure'')), w2))))"


section \<open>The entry point\<close>

text \<open>
  \<^verbatim>\<open>processWebhook\<close> validates, classifies and routes. The handlers of the two phases
  whose bodies are not examined here are parameters: whatever they do, they get a payload
  and a world and either return an outcome or throw.
\<close>

record handlers =
  processInitialInquiry :: "webhookPayload \<Rightarrow> world \<Rightarrow> (exn + outcome) \<times> world"
  processTestingCriteria :: "webhookPayload \<Rightarrow> world \<Rightarrow> (exn + outcome) \<times> world"

definition rethrow :: "(exn + outcome) \<times> world \<Rightarrow> (exn + outcome) \<times> world" where
  "rethrow r =
    (case r of
       (Inl error, w1) \<Rightarrow>
         (Inl (Error (str ''Webhook processing failed: '' @ message error)), w1)
     | (Inr result, w1) \<Rightarrow> (Inr result, w1))"

definition processWebhook ::
  "handlers \<Rightarrow> webhookPayload \<Rightarrow> world \<Rightarrow> (exn + outcome) \<times> world" where
  "processWebhook h webhookPayload w =
    (let isValid = isValidWebhookEvent webhookPayload
     in if \<not> isValid then (Inr (Ignored (str ''Non-actionable event'')), w)
        else case issue webhookPayload of
          None \<Rightarrow>
            (Inl (Error (str ''Webhook processing failed: ''
                          @ str ''Cannot read properties of undefined (reading 'fields')'')), w)
        | Some i \<Rightarrow>
            (case classifyIssueType i of
               initial_inquiry \<Rightarrow> rethrow (processInitialInquiry h webhookPayload w)
             | deliverable_criteria \<Rightarrow> rethrow (processDeliverableCriteria webhookPayload w)
             | testing_criteria \<Rightarrow> rethrow (processTestingCriteria h webhookPayload w)
             | ignore \<Rightarrow>
                 (Inr (Ignored (str ''No action required for this issue type'')), w)))"


section \<open>Notions used in the statements\<close>

text \<open>The label list that \<^verbatim>\<open>updateStageLabel\<close> computes from the fetched one and writes back.\<close>

definition stageUpdate :: "jsstring \<Rightarrow> label list \<Rightarrow> jsstring list" where
  "stageUpdate newStage ls =
     map labelName (filter (\<lambda>l. labelName l \<notin> set stageLabels) ls)
       @ [str ''claude-stage-'' @ newStage]"

text \<open>The calls that reach the implementation adapter.\<close>

fun isAdapterCall :: "call \<Rightarrow> bool" where
  "isAdapterCall (GenerateImplementation criteriaKey originalKey reqs) = True"
| "isAdapterCall (AddComment issueKey comment) = False"
| "isAdapterCall (GetIssue issueKey) = False"
| "isAdapterCall (UpdateIssueLabels issueKey ls) = False"
| "isAdapterCall (CreateImplementationArtifacts originalKey) = False"

text \<open>
  The lines that both \<^verbatim>\<open>extractSection\<close> methods go through: the match of the section,
  split at the line feeds (no line when the section is not found).
\<close>

definition sectionLines :: "jsstring \<Rightarrow> jsstring \<Rightarrow> jsstring list" where
  "sectionLines text sectionName =
    (case sectionMatch (str ''## '' @ sectionName) text of
       None \<Rightarrow> []
     | Some body \<Rightarrow> splitLines body)"


text \<open>
  What the four patterns of \<^verbatim>\<open>extractOriginalIssueKey\<close> match, said of the matched text
  alone: \<^verbatim>\<open>PCP1-\<close> and digits; two or more capital letters, a hyphen and digits; letters,
  optional digits, a hyphen and digits; the label \<^verbatim>\<open>**Original Issue:** \<close> followed by
  capital letters, a hyphen and digits.
\<close>

definition projectKey :: "jsstring \<Rightarrow> bool" where
  "projectKey k \<longleftrightarrow> (\<exists>ds. k = str ''PCP1-'' @ ds \<and> ds \<noteq> [] \<and> list_all isDigit ds)"

definition genericKey :: "jsstring \<Rightarrow> bool" where
  "genericKey k \<longleftrightarrow>
     (\<exists>ls ds. k = ls @ hyphen # ds \<and> 2 \<le> length ls \<and> list_all isUpper ls
        \<and> ds \<noteq> [] \<and> list_all isDigit ds)"

definition permissiveKey :: "jsstring \<Rightarrow> bool" where
  "permissiveKey k \<longleftrightarrow>
     (\<exists>ls ns ds. k = ls @ ns @ hyphen # ds \<and> ls \<noteq> [] \<and> list_all isLetter ls
        \<and> list_all isDigit ns \<and> ds \<noteq> [] \<and> list_all isDigit ds)"

definition originalIssueLine :: "jsstring \<Rightarrow> bool" where
  "originalIssueLine t \<longleftrightarrow>
     (\<exists>ls ds. t = str ''**Original Issue:** '' @ ls @ hyphen # ds \<and> ls \<noteq> []
        \<and> list_all isUpper ls \<and> ds \<noteq> [] \<and> list_all isDigit ds)"

text \<open>
  \<open>occursIn L s\<close>: some piece of \<open>s\<close> is in \<open>L\<close>. \<open>firstIn L s k\<close>: \<open>k\<close> is the piece of \<open>s\<close>
  that a search finds, the one in \<open>L\<close> that starts furthest left and, among those
  starting there, the longest. For the four patterns, whose quantifiers cannot give
  characters back with profit, that is the match of the JavaScript engine.
\<close>

definition occursIn :: "(jsstring \<Rightarrow> bool) \<Rightarrow> jsstring \<Rightarrow> bool" where
  "occursIn L s \<longleftrightarrow> (\<exists>pre k post. s = pre @ k @ post \<and> L k)"

definition firstIn :: "(jsstring \<Rightarrow> bool) \<Rightarrow> jsstring \<Rightarrow> jsstring \<Rightarrow> bool" where
  "firstIn L s k \<longleftrightarrow>
     (\<exists>pre post. s = pre @ k @ post \<and> L k
        \<and> (\<forall>k' post'. k @ post = k' @ post' \<and> L k' \<longrightarrow> length k' \<le> length k)
        \<and> (\<forall>pre' k' post'. s = pre' @ k' @ post' \<and> L k' \<longrightarrow> length pre \<le> length pre'))"


section \<open>Sample inputs\<close>

text \<open>
  A criteria issue as \<^verbatim>\<open>createDeliverableCriteriaIssue\<close> writes it (shortened), for the
  original issue PCP1-67, carrying the given labels; and two worlds: one where every
  outside call goes through, one where the tracker and everything else is unreachable.
\<close>

definition sampleDescription :: jsstring where
  "sampleDescription =
     str ''**Claude Generated Delivery Criteria**'' @ [newline, newline]
     @ str ''## Functional Requirements'' @ [newline]
     @ [bullet] @ str '' Users can log in'' @ [newline]
     @ [bullet] @ str '' Sessions expire'' @ [newline, newline]
     @ str ''## Technical Requirements'' @ [newline]
     @ [bullet] @ str '' Passwords are hashed'' @ [newline, newline]
     @ str ''---'' @ [newline]
     @ str ''*Generated by Claude Automation System*''"

definition sampleCriteriaIssue :: "label list \<Rightarrow> issue" where
  "sampleCriteriaIssue ls =
     \<lparr> key = Key (str ''PCP1-68''),
       issuetype_name = str ''Task'',
       status_name = str ''Ready for Implementation'',
       summary = Some (str ''Deliverable Criteria: PCP1-67 - Fix login bug''),
       description = Some sampleDescription,
       labels = Some ls \<rparr>"

definition samplePayload :: "label list \<Rightarrow> webhookPayload" where
  "samplePayload ls =
     \<lparr> webhookEvent = Some (str ''jira:issue_updated''),
       issue = Some (sampleCriteriaIssue ls),
       changelog_items = Some [str ''status''] \<rparr>"

definition quietWorld :: world where
  "quietWorld =
     \<lparr> calls = [],
       faults = (\<lambda>n. None),
       tracker = [str ''PCP1-67'' \<mapsto> [], str ''PCP1-68'' \<mapsto> []],
       adapterReply = \<lparr> implementation_type = str ''code'',
                        implementation_title = str ''Login fix'' \<rparr>,
       artifactFiles = [str ''solution.js'', str ''implementation-summary.md''] \<rparr>"

definition unreachableWorld :: world where
  "unreachableWorld = quietWorld \<lparr> faults := (\<lambda>n. Some (str ''fetch failed'')) \<rparr>"

text \<open>Handlers for the two other phases that would call the tracker if they were reached.\<close>

definition sampleHandlers :: handlers where
  "sampleHandlers =
     \<lparr> processInitialInquiry =
         (\<lambda>p w. (Inr (OtherOutcome (str ''requirements_analyzed'')),
                  snd (addComment (str ''PCP1-67'') (str ''analysis'') w))),
       processTestingCriteria =
         (\<lambda>p w. (Inr (OtherOutcome (str ''evaluation_passed'')),
                  snd (addComment (str ''PCP1-68'') (str ''evaluation'') w))) \<rparr>"


section \<open>Properties of the final score\<close>

lemma overallScore_sum:
  "overallScore (calculateFinalScore ev) =
     requirementsCoverage_score ev + qualityCraftsmanship_score ev
       + usabilityPracticality_score ev + completenessPolish_score ev"
  by (simp add: calculateFinalScore_def Let_def)

lemma meetsCriteria_unfold:
  "meetsCriteria (calculateFinalScore ev) \<longleftrightarrow>
     80 \<le> overallScore (calculateFinalScore ev)
     \<and> \<not> (0 < length (filter (\<lambda>e. severity e = str ''CRITICAL'') (errors ev))
          \<or> 0 < length (filter (\<lambda>e. severity e = str ''HIGH'') (errors ev)))
     \<and> 20 \<le> requirementsCoverage_score ev
     \<and> overallAssessment_readyForDeployment ev"
  by (simp add: calculateFinalScore_def Let_def)

lemma no_blocking_conv:
  "\<not> (0 < length (filter (\<lambda>e. severity e = str ''CRITICAL'') es)
      \<or> 0 < length (filter (\<lambda>e. severity e = str ''HIGH'') es))
   \<longleftrightarrow> filter (\<lambda>e. severity e = str ''CRITICAL'' \<or> severity e = str ''HIGH'') es = []"
  by (induction es) auto

text \<open>
  Claim C1. The verdict \<open>meetsCriteria\<close> of an evaluation is true exactly when the sum of
  the four category scores, which is the overall score reported, is at least 80, the
  error list holds no error of severity CRITICAL or HIGH, the requirements-coverage score
  alone is at least 20, and the adapter's \<open>readyForDeployment\<close> flag is true. In
  particular one CRITICAL or HIGH error makes the verdict false, whatever the scores are.
\<close>

theorem meetsCriteria_iff_four_conditions:
  "(meetsCriteria (calculateFinalScore ev) \<longleftrightarrow>
      80 \<le> requirementsCoverage_score ev + qualityCraftsmanship_score ev
             + usabilityPracticality_score ev + completenessPolish_score ev
      \<and> filter (\<lambda>e. severity e = str ''CRITICAL'' \<or> severity e = str ''HIGH'') (errors ev) = []
      \<and> 20 \<le> requirementsCoverage_score ev
      \<and> overallAssessment_readyForDeployment ev)
   \<and> overallScore (calculateFinalScore ev) =
        requirementsCoverage_score ev + qualityCraftsmanship_score ev
          + usabilityPracticality_score ev + completenessPolish_score ev
   \<and> ((\<exists>e \<in> set (errors ev). severity e = str ''CRITICAL'' \<or> severity e = str ''HIGH'')
        \<longrightarrow> \<not> meetsCriteria (calculateFinalScore ev))"
proof -
  have iff: "meetsCriteria (calculateFinalScore ev) \<longleftrightarrow>
      80 \<le> requirementsCoverage_score ev + qualityCraftsmanship_score ev
             + usabilityPracticality_score ev + completenessPolish_score ev
      \<and> filter (\<lambda>e. severity e = str ''CRITICAL'' \<or> severity e = str ''HIGH'') (errors ev) = []
      \<and> 20 \<le> requirementsCoverage_score ev
      \<and> overallAssessment_readyForDeployment ev"
    unfolding meetsCriteria_unfold no_blocking_conv overallScore_sum ..
  moreover have "\<not> meetsCriteria (calculateFinalScore ev)"
    if "\<exists>e \<in> set (errors ev). severity e = str ''CRITICAL'' \<or> severity e = str ''HIGH''"
  proof -
    from that have
      "filter (\<lambda>e. severity e = str ''CRITICAL'' \<or> severity e = str ''HIGH'') (errors ev) \<noteq> []"
      by (simp add: filter_empty_conv)
    with iff show ?thesis by simp
  qed
  ultimately show ?thesis using overallScore_sum [of ev] by blast
qed

text \<open>
  The scenario of the specification that passes: scores 22, 20, 20 and 20 (overall 82), no
  CRITICAL or HIGH error (one MEDIUM error is reported), ready for deployment. Then one
  condition is broken at a time: a CRITICAL error at overall 95; a HIGH error; overall 79;
  requirements coverage 19 at overall 94; not ready for deployment. Each fails.
\<close>

theorem meetsCriteria_iff_four_conditions_witness:
  "meetsCriteria (calculateFinalScore
      \<lparr> requirementsCoverage_score = 22, qualityCraftsmanship_score = 20,
        usabilityPracticality_score = 20, completenessPolish_score = 20,
        errors = [\<lparr> severity = str ''MEDIUM'', errType = str ''USABILITY'',
                    errDescription = str ''typo'' \<rparr>],
        overallAssessment_readyForDeployment = True \<rparr>)
   \<and> overallScore (calculateFinalScore
      \<lparr> requirementsCoverage_score = 22, qualityCraftsmanship_score = 20,
        usabilityPracticality_score = 20, completenessPolish_score = 20,
        errors = [\<lparr> severity = str ''MEDIUM'', errType = str ''USABILITY'',
                    errDescription = str ''typo'' \<rparr>],
        overallAssessment_readyForDeployment = True \<rparr>) = 82
   \<and> overallScore (calculateFinalScore
      \<lparr> requirementsCoverage_score = 25, qualityCraftsmanship_score = 25,
        usabilityPracticality_score = 25, completenessPolish_score = 20,
        errors = [\<lparr> severity = str ''CRITICAL'', errType = str ''FUNCTIONAL'',
                    errDescription = str ''crash'' \<rparr>],
        overallAssessment_readyForDeployment = True \<rparr>) = 95
   \<and> \<not> meetsCriteria (calculateFinalScore
      \<lparr> requirementsCoverage_score = 25, qualityCraftsmanship_score = 25,
        usabilityPracticality_score = 25, completenessPolish_score = 20,
        errors = [\<lparr> severity = str ''CRITICAL'', errType = str ''FUNCTIONAL'',
                    errDescription = str ''crash'' \<rparr>],
        overallAssessment_readyForDeployment = True \<rparr>)
   \<and> \<not> meetsCriteria (calculateFinalScore
      \<lparr> requirementsCoverage_score = 25, qualityCraftsmanship_score = 25,
        usabilityPracticality_score = 25, completenessPolish_score = 25,
        errors = [\<lparr> severity = str ''HIGH'', errType = str ''TECHNICAL'',
                    errDescription = str ''leak'' \<rparr>],
        overallAssessment_readyForDeployment = True \<rparr>)
   \<and> \<not> meetsCriteria (calculateFinalScore
      \<lparr> requirementsCoverage_score = 22, qualityCraftsmanship_score = 19,
        usabilityPracticality_score = 19, completenessPolish_score = 19,
        errors = [], overallAssessment_readyForDeployment = True \<rparr>)
   \<and> \<not> meetsCriteria (calculateFinalScore
      \<lparr> requirementsCoverage_score = 19, qualityCraftsmanship_score = 25,
        usabilityPracticality_score = 25, completenessPolish_score = 25,
        errors = [], overallAssessment_readyForDeployment = True \<rparr>)
   \<and> \<not> meetsCriteria (calculateFinalScore
      \<lparr> requirementsCoverage_score = 22, qualityCraftsmanship_score = 20,
        usabilityPracticality_score = 20, completenessPolish_score = 20,
        errors = [], overallAssessment_readyForDeployment = False \<rparr>)"
proof -
  let ?pass = "\<lparr> requirementsCoverage_score = 22, qualityCraftsmanship_score = 20,
        usabilityPracticality_score = 20, completenessPolish_score = 20,
        errors = [\<lparr> severity = str ''MEDIUM'', errType = str ''USABILITY'',
                    errDescription = str ''typo'' \<rparr>],
        overallAssessment_readyForDeployment = True \<rparr>"
  let ?critical = "\<lparr> requirementsCoverage_score = 25, qualityCraftsmanship_score = 25,
        usabilityPracticality_score = 25, completenessPolish_score = 20,
        errors = [\<lparr> severity = str ''CRITICAL'', errType = str ''FUNCTIONAL'',
                    errDescription = str ''crash'' \<rparr>],
        overallAssessment_readyForDeployment = True \<rparr>"
  let ?high = "\<lparr> requirementsCoverage_score = 25, qualityCraftsmanship_score = 25,
        usabilityPracticality_score = 25, completenessPolish_score = 25,
        errors = [\<lparr> severity = str ''HIGH'', errType = str ''TECHNICAL'',
                    errDescription = str ''leak'' \<rparr>],
        overallAssessment_readyForDeployment = True \<rparr>"
  let ?low = "\<lparr> requirementsCoverage_score = 22, qualityCraftsmanship_score = 19,
        usabilityPracticality_score = 19, completenessPolish_score = 19,
        errors = [], overallAssessment_readyForDeployment = True \<rparr>"
  let ?core = "\<lparr> requirementsCoverage_score = 19, qualityCraftsmanship_score = 25,
        usabilityPracticality_score = 25, completenessPolish_score = 25,
        errors = [], overallAssessment_readyForDeployment = True \<rparr>"
  let ?unready = "\<lparr> requirementsCoverage_score = 22, qualityCraftsmanship_score = 20,
        usabilityPracticality_score = 20, completenessPolish_score = 20,
        errors = [], overallAssessment_readyForDeployment = False \<rparr>"
  have medium: "str ''MEDIUM'' \<noteq> str ''CRITICAL''" "str ''MEDIUM'' \<noteq> str ''HIGH''"
    by (simp_all add: str_def)
  have hc: "\<exists>e \<in> set (errors ?critical).
              severity e = str ''CRITICAL'' \<or> severity e = str ''HIGH''"
    by simp
  have hh: "\<exists>e \<in> set (errors ?high). severity e = str ''CRITICAL'' \<or> severity e = str ''HIGH''"
    by simp
  have 1: "meetsCriteria (calculateFinalScore ?pass)"
    using meetsCriteria_iff_four_conditions [of ?pass] medium by simp
  have 2: "overallScore (calculateFinalScore ?pass) = 82"
    using meetsCriteria_iff_four_conditions [of ?pass] by simp
  have 3: "overallScore (calculateFinalScore ?critical) = 95"
    using meetsCriteria_iff_four_conditions [of ?critical] by simp
  have 4: "\<not> meetsCriteria (calculateFinalScore ?critical)"
    using meetsCriteria_iff_four_conditions [of ?critical] hc by blast
  have 5: "\<not> meetsCriteria (calculateFinalScore ?high)"
    using meetsCriteria_iff_four_conditions [of ?high] hh by blast
  have 6: "\<not> meetsCriteria (calculateFinalScore ?low)"
    using meetsCriteria_iff_four_conditions [of ?low] by simp
  have 7: "\<not> meetsCriteria (calculateFinalScore ?core)"
    using meetsCriteria_iff_four_conditions [of ?core] by simp
  have 8: "\<not> meetsCriteria (calculateFinalScore ?unready)"
    using meetsCriteria_iff_four_conditions [of ?unready] by simp
  from 1 2 3 4 5 6 7 8 show ?thesis by blast
qed

text \<open>
  Claim C8, as the code has it. The overall score is the plain sum of the four category
  scores that the adapter returned; no score is capped. The overall score lies between 0
  and 100 whenever each of the four scores lies between 0 and 25.
\<close>

theorem overallScore_plain_sum:
  "overallScore (calculateFinalScore ev) =
     requirementsCoverage_score ev + qualityCraftsmanship_score ev
       + usabilityPracticality_score ev + completenessPolish_score ev
   \<and> (0 \<le> requirementsCoverage_score ev \<and> requirementsCoverage_score ev \<le> 25
      \<and> 0 \<le> qualityCraftsmanship_score ev \<and> qualityCraftsmanship_score ev \<le> 25
      \<and> 0 \<le> usabilityPracticality_score ev \<and> usabilityPracticality_score ev \<le> 25
      \<and> 0 \<le> completenessPolish_score ev \<and> completenessPolish_score ev \<le> 25
      \<longrightarrow> 0 \<le> overallScore (calculateFinalScore ev)
          \<and> overallScore (calculateFinalScore ev) \<le> 100)"
  by (simp add: overallScore_sum)

theorem overallScore_plain_sum_witness:
  "overallScore (calculateFinalScore
      \<lparr> requirementsCoverage_score = 22, qualityCraftsmanship_score = 20,
        usabilityPracticality_score = 20, completenessPolish_score = 20,
        errors = [], overallAssessment_readyForDeployment = True \<rparr>) = 82
   \<and> 0 \<le> overallScore (calculateFinalScore
      \<lparr> requirementsCoverage_score = 22, qualityCraftsmanship_score = 20,
        usabilityPracticality_score = 20, completenessPolish_score = 20,
        errors = [], overallAssessment_readyForDeployment = True \<rparr>)
   \<and> overallScore (calculateFinalScore
      \<lparr> requirementsCoverage_score = 22, qualityCraftsmanship_score = 20,
        usabilityPracticality_score = 20, completenessPolish_score = 20,
        errors = [], overallAssessment_readyForDeployment = True \<rparr>) \<le> 100"
proof -
  let ?ev = "\<lparr> requirementsCoverage_score = 22, qualityCraftsmanship_score = 20,
        usabilityPracticality_score = 20, completenessPolish_score = 20,
        errors = [], overallAssessment_readyForDeployment = True \<rparr>"
  have h: "0 \<le> requirementsCoverage_score ?ev \<and> requirementsCoverage_score ?ev \<le> 25
      \<and> 0 \<le> qualityCraftsmanship_score ?ev \<and> qualityCraftsmanship_score ?ev \<le> 25
      \<and> 0 \<le> usabilityPracticality_score ?ev \<and> usabilityPracticality_score ?ev \<le> 25
      \<and> 0 \<le> completenessPolish_score ?ev \<and> completenessPolish_score ?ev \<le> 25"
    by simp
  from overallScore_plain_sum [of ?ev] h
  have "overallScore (calculateFinalScore ?ev) = 82
        \<and> 0 \<le> overallScore (calculateFinalScore ?ev)
        \<and> overallScore (calculateFinalScore ?ev) \<le> 100"
    by simp
  then show ?thesis .
qed

text \<open>
  The claim as the specification words it fails: with the scores 30, 25, 25 and 25 a sum
  of capped contributions would be 100, and the code reports 105, above the range.
\<close>

theorem overallScore_capped_counterexample:
  "overallScore (calculateFinalScore
      \<lparr> requirementsCoverage_score = 30, qualityCraftsmanship_score = 25,
        usabilityPracticality_score = 25, completenessPolish_score = 25,
        errors = [], overallAssessment_readyForDeployment = True \<rparr>) = 105
   \<and> \<not> overallScore (calculateFinalScore
      \<lparr> requirementsCoverage_score = 30, qualityCraftsmanship_score = 25,
        usabilityPracticality_score = 25, completenessPolish_score = 25,
        errors = [], overallAssessment_readyForDeployment = True \<rparr>) \<le> 100
   \<and> overallScore (calculateFinalScore
      \<lparr> requirementsCoverage_score = 30, qualityCraftsmanship_score = 25,
        usabilityPracticality_score = 25, completenessPolish_score = 25,
        errors = [], overallAssessment_readyForDeployment = True \<rparr>)
      \<noteq> min 25 (max 0 30) + min 25 (max 0 25) + min 25 (max 0 25) + min 25 (max 0 25)"
  by (simp add: calculateFinalScore_def Let_def)


section \<open>Evaluation of sample inputs\<close>

lemmas eval_defs = str_def newline_def bullet_def hyphen_def trim_def isWhiteSpace_def
  stripLeadingBullet_def asciiUpper_def isDigit_def isUpper_def isLetter_def
  orEmpty_def truthy_def

lemma startsWith_append_self: "startsWith (m @ r) m"
  by (induction m) simp_all

lemma startsWith_single: "startsWith s [c] \<longleftrightarrow> (\<exists>r. s = c # r)"
  by (cases s) auto

lemma includesStr_startsWith: "startsWith s m \<Longrightarrow> includesStr s m"
  by (cases s) (auto elim: startsWith.elims)

lemma includesStr_appendI: "includesStr b m \<Longrightarrow> includesStr (a @ b) m"
  by (induction a) simp_all

lemma includesStr_self_append: "includesStr (m @ r) m"
  by (rule includesStr_startsWith [OF startsWith_append_self])

lemma sample_includes_marker:
  "includesStr (str ''Deliverable Criteria: PCP1-67 - Fix login bug'')
     (str ''Deliverable Criteria:'')"
proof -
  have "str ''Deliverable Criteria: PCP1-67 - Fix login bug''
          = str ''Deliverable Criteria:'' @ str '' PCP1-67 - Fix login bug''"
    by (simp add: str_def)
  then show ?thesis by (simp only: includesStr_self_append)
qed

lemma sample_includes_generated:
  "includesStr sampleDescription (str ''*Generated by Claude Automation System*'')"
  unfolding sampleDescription_def
  using includesStr_self_append [of "str ''*Generated by Claude Automation System*''" "[]"]
  by (intro includesStr_appendI) simp

lemma sample_valid: "validateClaudeGeneratedCriteria (sampleCriteriaIssue ls)"
  by (simp add: validateClaudeGeneratedCriteria_def sampleCriteriaIssue_def orEmpty_def
        sample_includes_marker sample_includes_generated)

lemma sample_summary_match:
  "regexSearch projectSpecificAt (str ''Deliverable Criteria: PCP1-67 - Fix login bug'')
     = Some (str ''PCP1-67'')"
  by (simp add: projectSpecificAt_def hyphenDigits_def eval_defs)

lemma sample_key:
  "extractOriginalIssueKey (summary (sampleCriteriaIssue ls))
     (description (sampleCriteriaIssue ls)) = Some (str ''PCP1-67'')"
proof -
  have "str ''Deliverable Criteria: PCP1-67 - Fix login bug'' \<noteq> []"
    by (simp add: str_def)
  then show ?thesis
    by (simp add: sampleCriteriaIssue_def extractOriginalIssueKey_def truthy_def orEmpty_def
          sample_summary_match)
qed

lemma sample_stage:
  "getHighestStageCompleted (sampleCriteriaIssue []) = str ''none''"
  "getHighestStageCompleted (sampleCriteriaIssue [LabelObject (str ''claude-stage-tested'')])
     = str ''tested''"
  "getHighestStageCompleted (sampleCriteriaIssue
      [LabelObject (str ''claude-stage-implemented''),
       LabelObject (str ''claude-force-reimplement'')]) = str ''implemented''"
  by (simp_all add: getHighestStageCompleted_def sampleCriteriaIssue_def
        labelNameProperty_def str_def)

lemma none_not_completed:
  "str ''none'' \<noteq> str ''implemented''" "str ''none'' \<noteq> str ''tested''"
  by (simp_all add: str_def)


section \<open>Properties of validation and classification\<close>

lemma hasClaudeMarkers_criteria:
  "includesStr s (str ''Deliverable Criteria:'') \<Longrightarrow> hasClaudeMarkers s d"
  by (simp add: hasClaudeMarkers_def claudeMarkers_def)

text \<open>
  Claim C4. An issue whose summary contains the marker \<open>Deliverable Criteria:\<close> bears a
  Claude marker, and its classification is \<open>testing_criteria\<close> when its status is
  \<open>Testing Criteria\<close>; otherwise \<open>deliverable_criteria\<close> when its status is one of
  \<open>Ready for Implementation\<close>, \<open>In Progress\<close>, \<open>Ready for Development\<close>; otherwise
  \<open>ignore\<close>. The test for \<open>Testing Criteria\<close> comes first.
\<close>

theorem classifyIssueType_criteria_issue:
  assumes "includesStr (orEmpty (summary i)) (str ''Deliverable Criteria:'')"
  shows "hasClaudeMarkers (orEmpty (summary i)) (orEmpty (description i))
       \<and> classifyIssueType i =
          (if status_name i = str ''Testing Criteria'' then testing_criteria
           else if status_name i = str ''Ready for Implementation''
                   \<or> status_name i = str ''In Progress''
                   \<or> status_name i = str ''Ready for Development'' then deliverable_criteria
           else ignore)"
  using assms hasClaudeMarkers_criteria [OF assms, of "orEmpty (description i)"]
  by (simp add: classifyIssueType_def isReadyForImplementation_def Let_def)

theorem classifyIssueType_criteria_issue_witness:
  "classifyIssueType ((sampleCriteriaIssue []) \<lparr> status_name := str ''Testing Criteria'' \<rparr>)
     = testing_criteria
   \<and> classifyIssueType ((sampleCriteriaIssue []) \<lparr> status_name := str ''In Progress'' \<rparr>)
     = deliverable_criteria
   \<and> classifyIssueType ((sampleCriteriaIssue []) \<lparr> status_name := str ''Done'' \<rparr>)
     = ignore"
proof -
  have h: "includesStr (orEmpty (summary ((sampleCriteriaIssue []) \<lparr> status_name := st \<rparr>)))
             (str ''Deliverable Criteria:'')" for st
    by (simp add: sampleCriteriaIssue_def orEmpty_def sample_includes_marker)
  have neq: "str ''In Progress'' \<noteq> str ''Testing Criteria''"
    "str ''Done'' \<noteq> str ''Testing Criteria''"
    "str ''Done'' \<noteq> str ''Ready for Implementation''"
    "str ''Done'' \<noteq> str ''In Progress''"
    "str ''Done'' \<noteq> str ''Ready for Development''"
    by (simp_all add: str_def)
  from classifyIssueType_criteria_issue [OF h] neq show ?thesis by simp
qed

lemma invalid_unsupported_event:
  assumes "webhookEvent p \<noteq> Some (str ''jira:issue_created'')"
      and "webhookEvent p \<noteq> Some (str ''jira:issue_updated'')"
  shows "\<not> isValidWebhookEvent p"
proof (cases "webhookEvent p")
  case None
  then show ?thesis by (simp add: isValidWebhookEvent_def)
next
  case (Some e)
  with assms have "e \<notin> set supportedEvents" by (simp add: supportedEvents_def)
  with Some show ?thesis by (simp add: isValidWebhookEvent_def)
qed

lemma invalid_missing_issue:
  assumes "issue p = None"
  shows "\<not> isValidWebhookEvent p"
  using assms by (simp add: isValidWebhookEvent_def)

lemma invalid_missing_key:
  assumes "issue p = Some i" and "\<not> truthyKey (key i)"
  shows "\<not> isValidWebhookEvent p"
  using assms by (simp add: isValidWebhookEvent_def)

text \<open>
  Claim C7. A webhook event whose type is neither \<open>jira:issue_created\<close> nor
  \<open>jira:issue_updated\<close>, or that has no issue, or whose issue has no key (absent,
  \<open>null\<close> or empty), is answered with the outcome \<open>ignored\<close>, and the world is left as it was: no
  call to the tracker, to the adapter or to the artifact store is made, whatever the
  phase handlers would do.
\<close>

theorem processWebhook_invalid_event_ignored:
  assumes "(webhookEvent p \<noteq> Some (str ''jira:issue_created'')
              \<and> webhookEvent p \<noteq> Some (str ''jira:issue_updated''))
           \<or> issue p = None
           \<or> (\<exists>i. issue p = Some i \<and> (key i = KeyUndefined \<or> key i = KeyNull \<or> key i = Key []))"
  shows "processWebhook h p w = (Inr (Ignored (str ''Non-actionable event'')), w)
         \<and> action (Ignored (str ''Non-actionable event'')) = str ''ignored''
         \<and> calls (snd (processWebhook h p w)) = calls w"
proof -
  have "\<not> isValidWebhookEvent p"
    using assms
  proof (elim disjE exE conjE)
    assume "webhookEvent p \<noteq> Some (str ''jira:issue_created'')"
       "webhookEvent p \<noteq> Some (str ''jira:issue_updated'')"
    then show ?thesis by (rule invalid_unsupported_event)
  next
    assume "issue p = None"
    then show ?thesis by (rule invalid_missing_issue)
  next
    fix i assume "issue p = Some i" "key i = KeyUndefined"
    then show ?thesis by (intro invalid_missing_key [of p i]) (simp_all add: truthyKey_def)
  next
    fix i assume "issue p = Some i" "key i = KeyNull"
    then show ?thesis by (intro invalid_missing_key [of p i]) (simp_all add: truthyKey_def)
  next
    fix i assume "issue p = Some i" "key i = Key []"
    then show ?thesis by (intro invalid_missing_key [of p i]) (simp_all add: truthyKey_def)
  qed
  then show ?thesis by (simp add: processWebhook_def)
qed

text \<open>
  An \<open>issue_deleted\<close> event for the sample criteria issue, and a created event without
  an issue, with handlers that would call the tracker if they were reached.
\<close>

theorem processWebhook_invalid_event_ignored_witness:
  "processWebhook
     sampleHandlers
     ((samplePayload []) \<lparr> webhookEvent := Some (str ''jira:issue_deleted'') \<rparr>) quietWorld
   = (Inr (Ignored (str ''Non-actionable event'')), quietWorld)
   \<and> processWebhook
     sampleHandlers
     \<lparr> webhookEvent = Some (str ''jira:issue_created''), issue = None,
       changelog_items = None \<rparr> quietWorld
   = (Inr (Ignored (str ''Non-actionable event'')), quietWorld)"
proof -
  let ?h = sampleHandlers
  let ?p1 = "(samplePayload []) \<lparr> webhookEvent := Some (str ''jira:issue_deleted'') \<rparr>"
  let ?p2 = "\<lparr> webhookEvent = Some (str ''jira:issue_created''), issue = None,
       changelog_items = None \<rparr>"
  have h1: "(webhookEvent ?p1 \<noteq> Some (str ''jira:issue_created'')
              \<and> webhookEvent ?p1 \<noteq> Some (str ''jira:issue_updated''))
           \<or> issue ?p1 = None
           \<or> (\<exists>i. issue ?p1 = Some i \<and> (key i = KeyUndefined \<or> key i = KeyNull \<or> key i = Key []))"
    by (simp add: str_def)
  have h2: "(webhookEvent ?p2 \<noteq> Some (str ''jira:issue_created'')
              \<and> webhookEvent ?p2 \<noteq> Some (str ''jira:issue_updated''))
           \<or> issue ?p2 = None
           \<or> (\<exists>i. issue ?p2 = Some i \<and> (key i = KeyUndefined \<or> key i = KeyNull \<or> key i = Key []))"
    by simp
  from processWebhook_invalid_event_ignored [OF h1, of ?h quietWorld]
       processWebhook_invalid_event_ignored [OF h2, of ?h quietWorld]
  show ?thesis by blast
qed



section \<open>Properties of the stage tracker\<close>

lemma updateStageLabel_no_fault:
  assumes "\<forall>n. faults w n = None"
  shows "updateStageLabel k s w =
    (case tracker w k of
       None \<Rightarrow> w\<lparr>calls := calls w @ [GetIssue k]\<rparr>
     | Some ls \<Rightarrow>
         w\<lparr>calls := calls w @ [GetIssue k, UpdateIssueLabels k (stageUpdate s ls)],
           tracker := (tracker w)(k \<mapsto> map LabelString (stageUpdate s ls))\<rparr>)"
  using assms
  by (simp add: updateStageLabel_def getIssue_def updateIssue_def external_def stageUpdate_def
       Let_def split: option.splits)

lemma tracker_updateStageLabel:
  assumes "\<forall>n. faults w n = None"
  shows "tracker (updateStageLabel k s w) =
    (case tracker w k of
       None \<Rightarrow> tracker w
     | Some ls \<Rightarrow> (tracker w)(k \<mapsto> map LabelString (stageUpdate s ls)))"
  by (simp add: updateStageLabel_no_fault [OF assms] split: option.splits)

lemma updateStageLabel_faults: "faults (updateStageLabel k s w) = faults w"
  by (simp add: updateStageLabel_def getIssue_def updateIssue_def external_def Let_def
       split: option.splits prod.splits sum.splits)

lemma funpow_updateStageLabel_faults: "faults ((updateStageLabel k s ^^ n) w) = faults w"
  by (induction n) (simp_all add: updateStageLabel_faults)

lemma stage_tag_in_stageLabels:
  assumes "s = str ''analyzed'' \<or> s = str ''implemented'' \<or> s = str ''tested''"
  shows "str ''claude-stage-'' @ s \<in> set stageLabels"
  using assms by (auto simp add: stageLabels_def str_def)

text \<open>
  The stage is derived from labels that are objects with a name. Labels that are plain
  strings, as \<^verbatim>\<open>updateStageLabel\<close> writes them, derive no stage.
\<close>

lemma getHighestStageCompleted_string_labels:
  "getHighestStageCompleted (i \<lparr> labels := Some (map LabelString names) \<rparr>) = str ''none''"
proof -
  have "Some x \<notin> set (map labelNameProperty (map LabelString names))" for x
    by (induction names) (simp_all add: labelNameProperty_def)
  then show ?thesis by (simp add: getHighestStageCompleted_def)
qed

text \<open>
  Once the update has run, the labels are plain strings, none of the kept ones is a stage
  tag, and the last one is: a second run filters the tag out and appends it again.
\<close>

lemma stageUpdate_again:
  assumes "str ''claude-stage-'' @ s \<in> set stageLabels"
  shows "stageUpdate s (map LabelString (stageUpdate s ls)) = stageUpdate s ls"
proof -
  have "filter (\<lambda>l. labelName l \<notin> set stageLabels)
          (map LabelString (map labelName (filter (\<lambda>l. labelName l \<notin> set stageLabels) ls)))
        = map LabelString (map labelName (filter (\<lambda>l. labelName l \<notin> set stageLabels) ls))"
    by (induction ls) (simp_all add: labelName_def)
  with assms show ?thesis
    by (simp add: stageUpdate_def labelName_def comp_def)
qed

lemma updateStageLabel_twice:
  assumes nf: "\<forall>n. faults w n = None"
      and tag: "str ''claude-stage-'' @ s \<in> set stageLabels"
  shows "tracker (updateStageLabel k s (updateStageLabel k s w))
           = tracker (updateStageLabel k s w)"
proof -
  have nf': "\<forall>n. faults (updateStageLabel k s w) n = None"
    using nf by (simp add: updateStageLabel_faults)
  have step: "tracker (updateStageLabel k s (updateStageLabel k s w)) =
    (case tracker (updateStageLabel k s w) k of
       None \<Rightarrow> tracker (updateStageLabel k s w)
     | Some ls \<Rightarrow>
         (tracker (updateStageLabel k s w))(k \<mapsto> map LabelString (stageUpdate s ls)))"
    by (rule tracker_updateStageLabel [OF nf'])
  show ?thesis
  proof (cases "tracker w k")
    case None
    then have "tracker (updateStageLabel k s w) = tracker w"
      by (simp add: tracker_updateStageLabel [OF nf])
    with None step show ?thesis by simp
  next
    case (Some ls)
    then have "tracker (updateStageLabel k s w) =
                 (tracker w)(k \<mapsto> map LabelString (stageUpdate s ls))"
      by (simp add: tracker_updateStageLabel [OF nf])
    with step show ?thesis by (simp add: stageUpdate_again [OF tag])
  qed
qed

text \<open>
  Claim C6. For a target stage that has a tag (\<open>analyzed\<close>, \<open>implemented\<close>, \<open>tested\<close>) and
  a tracker that answers, running the stage-label update any number of times, at least
  once, leaves every issue of the tracker with the labels that one run leaves; and one
  run leaves the issue with the names of its labels that are not stage tags, in their
  order, followed by the tag of the target stage.
\<close>

theorem updateStageLabel_idempotent:
  assumes "newStage = str ''analyzed'' \<or> newStage = str ''implemented''
           \<or> newStage = str ''tested''"
      and "\<forall>n. faults w n = None"
  shows "tracker ((updateStageLabel issueKey newStage ^^ Suc n) w)
           = tracker (updateStageLabel issueKey newStage w)
       \<and> (\<forall>ls. tracker w issueKey = Some ls \<longrightarrow>
             tracker (updateStageLabel issueKey newStage w) issueKey =
               Some (map LabelString
                 (map labelName (filter (\<lambda>l. labelName l \<notin> set stageLabels) ls)
                    @ [str ''claude-stage-'' @ newStage])))"
proof -
  let ?f = "updateStageLabel issueKey newStage"
  have tag: "str ''claude-stage-'' @ newStage \<in> set stageLabels"
    using assms(1) by (rule stage_tag_in_stageLabels)
  have "tracker ((?f ^^ Suc n) w) = tracker (?f w)"
  proof (induction n)
    case 0
    show ?case by simp
  next
    case (Suc n)
    have nf: "\<forall>m. faults ((?f ^^ n) w) m = None"
      using assms(2) by (simp add: funpow_updateStageLabel_faults)
    have "tracker ((?f ^^ Suc (Suc n)) w) = tracker (?f (?f ((?f ^^ n) w)))" by simp
    also have "\<dots> = tracker (?f ((?f ^^ n) w))"
      by (rule updateStageLabel_twice [OF nf tag])
    also have "\<dots> = tracker ((?f ^^ Suc n) w)" by simp
    finally show ?case using Suc.IH by simp
  qed
  moreover have "\<forall>ls. tracker w issueKey = Some ls \<longrightarrow>
             tracker (?f w) issueKey =
               Some (map LabelString
                 (map labelName (filter (\<lambda>l. labelName l \<notin> set stageLabels) ls)
                    @ [str ''claude-stage-'' @ newStage]))"
    by (simp add: updateStageLabel_no_fault [OF assms(2)] stageUpdate_def)
  ultimately show ?thesis by blast
qed

text \<open>
  The criteria issue PCP1-68 carries the object label \<open>claude-stage-implemented\<close> and the
  string label \<open>bug\<close>; three updates to \<open>tested\<close> leave \<open>bug\<close> and \<open>claude-stage-tested\<close>.
\<close>

theorem updateStageLabel_idempotent_witness:
  "tracker ((updateStageLabel (str ''PCP1-68'') (str ''tested'') ^^ Suc (Suc (Suc 0)))
      (quietWorld \<lparr> tracker := [str ''PCP1-68'' \<mapsto>
          [LabelObject (str ''claude-stage-implemented''), LabelString (str ''bug'')]] \<rparr>))
     (str ''PCP1-68'')
   = Some [LabelString (str ''bug''), LabelString (str ''claude-stage-tested'')]"
proof -
  let ?w = "quietWorld \<lparr> tracker := [str ''PCP1-68'' \<mapsto>
          [LabelObject (str ''claude-stage-implemented''), LabelString (str ''bug'')]] \<rparr>"
  have st: "str ''tested'' = str ''analyzed'' \<or> str ''tested'' = str ''implemented''
            \<or> str ''tested'' = str ''tested''"
    by simp
  have nf: "\<forall>n. faults ?w n = None"
    by (simp add: quietWorld_def)
  have ls: "tracker ?w (str ''PCP1-68'') =
      Some [LabelObject (str ''claude-stage-implemented''), LabelString (str ''bug'')]"
    by simp
  have names: "map labelName (filter (\<lambda>l. labelName l \<notin> set stageLabels)
        [LabelObject (str ''claude-stage-implemented''), LabelString (str ''bug'')])
        @ [str ''claude-stage-'' @ str ''tested'']
      = [str ''bug'', str ''claude-stage-tested'']"
    by (simp add: labelName_def stageLabels_def str_def)
  note idem = updateStageLabel_idempotent
         [OF st nf, where issueKey = "str ''PCP1-68''" and n = "Suc (Suc 0)"]
  from idem have thrice:
    "tracker ((updateStageLabel (str ''PCP1-68'') (str ''tested'') ^^ Suc (Suc (Suc 0))) ?w)
       = tracker (updateStageLabel (str ''PCP1-68'') (str ''tested'') ?w)"
    by (rule conjunct1)
  from idem ls have
    "tracker (updateStageLabel (str ''PCP1-68'') (str ''tested'') ?w) (str ''PCP1-68'') =
       Some (map LabelString
         (map labelName (filter (\<lambda>l. labelName l \<notin> set stageLabels)
            [LabelObject (str ''claude-stage-implemented''), LabelString (str ''bug'')])
          @ [str ''claude-stage-'' @ str ''tested'']))"
    by blast
  then have once:
    "tracker (updateStageLabel (str ''PCP1-68'') (str ''tested'') ?w) (str ''PCP1-68'') =
       Some (map LabelString [str ''bug'', str ''claude-stage-tested''])"
    unfolding names .
  show ?thesis unfolding thrice once by simp
qed


section \<open>Properties of the deliverable-criteria phase\<close>

lemma addComment_no_fault:
  "faults w (length (calls w)) = None \<Longrightarrow>
     addComment k c w = (Inr (), w\<lparr>calls := calls w @ [AddComment k c]\<rparr>)"
  by (simp add: addComment_def external_def)

lemma addComment_fault:
  "faults w (length (calls w)) = Some m \<Longrightarrow>
     addComment k c w = (Inl (Error m), w\<lparr>calls := calls w @ [AddComment k c]\<rparr>)"
  by (simp add: addComment_def external_def)

text \<open>
  With the stage at \<open>implemented\<close> or \<open>tested\<close> the guard is taken: \<open>hasOverrideLabel\<close> is
  undefined, so \<open>hasForceReimplement\<close> is false whatever the labels are.
\<close>

lemma skip_guard_reached:
  assumes "validateClaudeGeneratedCriteria i"
      and "extractOriginalIssueKey (summary i) (description i) = Some originalKey"
      and "getHighestStageCompleted i = str ''implemented''
           \<or> getHighestStageCompleted i = str ''tested''"
  shows "deliverableCriteriaTry i w =
     (case addComment (keyText (key i)) (skippedComment (getHighestStageCompleted i)) w of
        (Inl e, w1) \<Rightarrow> (Inl e, w1)
      | (Inr u, w1) \<Rightarrow>
          (Inr (Skipped (str ''Implementation already exists'') (getHighestStageCompleted i)
                  (key i) originalKey), w1))"
  using assms by (auto simp add: deliverableCriteriaTry_def hasOverrideLabel_def Let_def)

lemma skip_result:
  assumes "issue p = Some i"
      and "validateClaudeGeneratedCriteria i"
      and "extractOriginalIssueKey (summary i) (description i) = Some originalKey"
      and "getHighestStageCompleted i = str ''implemented''
           \<or> getHighestStageCompleted i = str ''tested''"
      and "faults w (length (calls w)) = None"
  shows "processDeliverableCriteria p w =
     (Inr (Skipped (str ''Implementation already exists'') (getHighestStageCompleted i)
             (key i) originalKey),
      w\<lparr>calls := calls w @ [AddComment (keyText (key i))
                               (skippedComment (getHighestStageCompleted i))]\<rparr>)"
  by (simp add: processDeliverableCriteria_def assms(1)
        skip_guard_reached [OF assms(2,3,4)] addComment_no_fault [OF assms(5)])

lemma skip_no_adapter_call:
  assumes "issue p = Some i"
      and "validateClaudeGeneratedCriteria i"
      and "extractOriginalIssueKey (summary i) (description i) = Some originalKey"
      and "getHighestStageCompleted i = str ''implemented''
           \<or> getHighestStageCompleted i = str ''tested''"
  shows "filter isAdapterCall (calls (snd (processDeliverableCriteria p w)))
           = filter isAdapterCall (calls w)"
proof (cases "faults w (length (calls w))")
  case None
  then show ?thesis by (simp add: skip_result [OF assms None])
next
  case (Some m)
  let ?w1 = "w\<lparr>calls := calls w @ [AddComment (keyText (key i))
                               (skippedComment (getHighestStageCompleted i))]\<rparr>"
  have tr: "deliverableCriteriaTry i w = (Inl (Error m), ?w1)"
    by (simp add: skip_guard_reached [OF assms(2,3,4)] addComment_fault [OF Some])
  have "calls (snd (processDeliverableCriteria p w)) =
          calls ?w1 @ [AddComment (keyText (key i)) (systemErrorComment m)]"
    by (simp add: processDeliverableCriteria_def assms(1) tr addComment_def external_def
          split: option.splits)
  then show ?thesis by simp
qed

text \<open>
  The path through the whole phase when the derived stage is neither \<open>implemented\<close> nor
  \<open>tested\<close> and nothing throws.
\<close>

lemma generation_path:
  assumes "issue p = Some i"
      and "validateClaudeGeneratedCriteria i"
      and "extractOriginalIssueKey (summary i) (description i) = Some originalKey"
      and "getHighestStageCompleted i \<noteq> str ''implemented''"
      and "getHighestStageCompleted i \<noteq> str ''tested''"
      and "\<forall>n. faults w n = None"
      and "tracker w originalKey = Some originalLabels"
  shows "processDeliverableCriteria p w =
     (Inr (ImplementationGenerated (key i) originalKey (adapterReply w) (artifactFiles w)),
      updateStageLabel (keyText (key i)) (str ''implemented'')
        (w\<lparr>calls := calls w @
            [GetIssue originalKey,
             GenerateImplementation (keyText (key i)) originalKey
               (extractRequirementsFromCriteria i),
             CreateImplementationArtifacts originalKey,
             AddComment (keyText (key i))
               (generatedComment originalKey (adapterReply w) (artifactFiles w))]\<rparr>))"
proof -
  have steps: "deliverableCriteriaSteps i originalKey w =
     (Inr (ImplementationGenerated (key i) originalKey (adapterReply w) (artifactFiles w)),
      updateStageLabel (keyText (key i)) (str ''implemented'')
        (w\<lparr>calls := calls w @
            [GetIssue originalKey,
             GenerateImplementation (keyText (key i)) originalKey
               (extractRequirementsFromCriteria i),
             CreateImplementationArtifacts originalKey,
             AddComment (keyText (key i))
               (generatedComment originalKey (adapterReply w) (artifactFiles w))]\<rparr>))"
    using assms(6,7)
    by (simp add: deliverableCriteriaSteps_def getIssue_def generateImplementation_def
          createImplementationArtifacts_def addComment_def external_def Let_def)
  have "deliverableCriteriaTry i w = deliverableCriteriaSteps i originalKey w"
    using assms(2,3,4,5) by (simp add: deliverableCriteriaTry_def hasOverrideLabel_def Let_def)
  with steps assms(1) show ?thesis by (simp add: processDeliverableCriteria_def)
qed


lemma calls_updateStageLabel:
  assumes "\<forall>n. faults w n = None" and "tracker w k = Some ls"
  shows "calls (updateStageLabel k s w) =
           calls w @ [GetIssue k, UpdateIssueLabels k (stageUpdate s ls)]"
  using assms(2) by (simp add: updateStageLabel_no_fault [OF assms(1)])

lemma sample_stage_string:
  "getHighestStageCompleted (sampleCriteriaIssue [LabelString (str ''claude-stage-implemented'')])
     = str ''none''"
  by (simp add: getHighestStageCompleted_def sampleCriteriaIssue_def labelNameProperty_def)

lemma sample_first_run:
  "processDeliverableCriteria (samplePayload []) quietWorld =
     (Inr (ImplementationGenerated (Key (str ''PCP1-68'')) (str ''PCP1-67'')
             (adapterReply quietWorld) (artifactFiles quietWorld)),
      quietWorld
        \<lparr>calls :=
           [GetIssue (str ''PCP1-67''),
            GenerateImplementation (str ''PCP1-68'') (str ''PCP1-67'')
              (extractRequirementsFromCriteria (sampleCriteriaIssue [])),
            CreateImplementationArtifacts (str ''PCP1-67''),
            AddComment (str ''PCP1-68'')
              (generatedComment (str ''PCP1-67'') (adapterReply quietWorld)
                 (artifactFiles quietWorld)),
            GetIssue (str ''PCP1-68''),
            UpdateIssueLabels (str ''PCP1-68'') [str ''claude-stage-implemented'']],
         tracker := (tracker quietWorld)
           (str ''PCP1-68'' \<mapsto> [LabelString (str ''claude-stage-implemented'')])\<rparr>)"
proof -
  have p: "issue (samplePayload []) = Some (sampleCriteriaIssue [])"
    by (simp add: samplePayload_def)
  have nf: "\<forall>n. faults quietWorld n = None" by (simp add: quietWorld_def)
  have t67: "tracker quietWorld (str ''PCP1-67'') = Some []"
    by (simp add: quietWorld_def str_def)
  have t68: "tracker quietWorld (str ''PCP1-68'') = Some []"
    by (simp add: quietWorld_def)
  have k: "key (sampleCriteriaIssue []) = Key (str ''PCP1-68'')"
    by (simp add: sampleCriteriaIssue_def)
  have c: "calls quietWorld = []" by (simp add: quietWorld_def)
  have tag: "stageUpdate (str ''implemented'') [] = [str ''claude-stage-implemented'']"
    by (simp add: stageUpdate_def str_def)
  have ne: "getHighestStageCompleted (sampleCriteriaIssue []) \<noteq> str ''implemented''"
           "getHighestStageCompleted (sampleCriteriaIssue []) \<noteq> str ''tested''"
    by (simp_all add: sample_stage none_not_completed)
  show ?thesis
    by (simp add: generation_path [OF p sample_valid sample_key ne nf t67] k keyText_def c
          updateStageLabel_no_fault nf t68 tag)
qed



text \<open>
  Claim C2 at a failing input. The sample criteria issue goes through the phase once, in
  a world where everything answers: the implementation is generated and the stage label
  \<open>claude-stage-implemented\<close> is written to the tracker, as a plain string. The phase is
  then run again on the issue carrying the labels that the tracker now holds, with no
  override label. \<open>getHighestStageCompleted\<close> reads the \<open>name\<close> property of each label,
  which a string does not have, and derives the stage \<open>none\<close>: the second run is not
  skipped, the adapter is called a second time and the outcome is
  \<open>implementation_generated\<close> again.
\<close>

theorem rerun_with_string_stage_label_not_skipped:
  "tracker (snd (processDeliverableCriteria (samplePayload []) quietWorld)) (str ''PCP1-68'')
     = Some [LabelString (str ''claude-stage-implemented'')]
   \<and> fst (processDeliverableCriteria
          (samplePayload [LabelString (str ''claude-stage-implemented'')])
          (snd (processDeliverableCriteria (samplePayload []) quietWorld)))
     = Inr (ImplementationGenerated (Key (str ''PCP1-68'')) (str ''PCP1-67'')
             (adapterReply quietWorld) (artifactFiles quietWorld))
   \<and> calls (snd (processDeliverableCriteria
          (samplePayload [LabelString (str ''claude-stage-implemented'')])
          (snd (processDeliverableCriteria (samplePayload []) quietWorld))))
     = [GetIssue (str ''PCP1-67''),
        GenerateImplementation (str ''PCP1-68'') (str ''PCP1-67'')
          (extractRequirementsFromCriteria (sampleCriteriaIssue [])),
        CreateImplementationArtifacts (str ''PCP1-67''),
        AddComment (str ''PCP1-68'')
          (generatedComment (str ''PCP1-67'') (adapterReply quietWorld)
             (artifactFiles quietWorld)),
        GetIssue (str ''PCP1-68''),
        UpdateIssueLabels (str ''PCP1-68'') [str ''claude-stage-implemented''],
        GetIssue (str ''PCP1-67''),
        GenerateImplementation (str ''PCP1-68'') (str ''PCP1-67'')
          (extractRequirementsFromCriteria
             (sampleCriteriaIssue [LabelString (str ''claude-stage-implemented'')])),
        CreateImplementationArtifacts (str ''PCP1-67''),
        AddComment (str ''PCP1-68'')
          (generatedComment (str ''PCP1-67'') (adapterReply quietWorld)
             (artifactFiles quietWorld)),
        GetIssue (str ''PCP1-68''),
        UpdateIssueLabels (str ''PCP1-68'') [str ''claude-stage-implemented'']]"
proof -
  let ?ls = "[LabelString (str ''claude-stage-implemented'')]"
  let ?w1 = "quietWorld
        \<lparr>calls :=
           [GetIssue (str ''PCP1-67''),
            GenerateImplementation (str ''PCP1-68'') (str ''PCP1-67'')
              (extractRequirementsFromCriteria (sampleCriteriaIssue [])),
            CreateImplementationArtifacts (str ''PCP1-67''),
            AddComment (str ''PCP1-68'')
              (generatedComment (str ''PCP1-67'') (adapterReply quietWorld)
                 (artifactFiles quietWorld)),
            GetIssue (str ''PCP1-68''),
            UpdateIssueLabels (str ''PCP1-68'') [str ''claude-stage-implemented'']],
         tracker := (tracker quietWorld)
           (str ''PCP1-68'' \<mapsto> [LabelString (str ''claude-stage-implemented'')])\<rparr>"
  have first: "snd (processDeliverableCriteria (samplePayload []) quietWorld) = ?w1"
    by (simp add: sample_first_run)
  have p: "issue (samplePayload ?ls) = Some (sampleCriteriaIssue ?ls)"
    by (simp add: samplePayload_def)
  have ne: "getHighestStageCompleted (sampleCriteriaIssue ?ls) \<noteq> str ''implemented''"
           "getHighestStageCompleted (sampleCriteriaIssue ?ls) \<noteq> str ''tested''"
    by (simp_all add: sample_stage_string none_not_completed)
  have nf: "\<forall>n. faults ?w1 n = None" by (simp add: quietWorld_def)
  have differ: "str ''PCP1-67'' \<noteq> str ''PCP1-68''" by (simp add: str_def)
  have t67: "tracker ?w1 (str ''PCP1-67'') = Some []"
    using differ by (simp add: quietWorld_def)
  have k: "key (sampleCriteriaIssue ?ls) = Key (str ''PCP1-68'')"
    by (simp add: sampleCriteriaIssue_def)
  have tag: "stageUpdate (str ''implemented'') ?ls = [str ''claude-stage-implemented'']"
    by (simp add: stageUpdate_def labelName_def stageLabels_def str_def)
  note second = generation_path [OF p sample_valid sample_key ne nf t67]
  have a: "tracker ?w1 (str ''PCP1-68'') = Some ?ls" by simp
  have b: "fst (processDeliverableCriteria (samplePayload ?ls) ?w1)
     = Inr (ImplementationGenerated (Key (str ''PCP1-68'')) (str ''PCP1-67'')
             (adapterReply quietWorld) (artifactFiles quietWorld))"
    by (simp add: second k)
  have c: "calls (snd (processDeliverableCriteria (samplePayload ?ls) ?w1)) =
      calls ?w1 @
        [GetIssue (str ''PCP1-67''),
         GenerateImplementation (str ''PCP1-68'') (str ''PCP1-67'')
           (extractRequirementsFromCriteria (sampleCriteriaIssue ?ls)),
         CreateImplementationArtifacts (str ''PCP1-67''),
         AddComment (str ''PCP1-68'')
           (generatedComment (str ''PCP1-67'') (adapterReply quietWorld)
              (artifactFiles quietWorld)),
         GetIssue (str ''PCP1-68''),
         UpdateIssueLabels (str ''PCP1-68'') [str ''claude-stage-implemented'']]"
  proof -
    have qf: "faults quietWorld n = None" for n by (simp add: quietWorld_def)
    show ?thesis
      by (simp add: second k keyText_def calls_updateStageLabel [where ls = ?ls] qf tag)
  qed
  show ?thesis unfolding first using a b c by simp
qed


text \<open>
  Claim C3 at a failing input. The sample criteria issue carries the object labels
  \<open>claude-stage-implemented\<close> and \<open>claude-force-reimplement\<close>, and the tracker answers.
  The phase posts the comment \<open>Implementation Skipped\<close> and returns \<open>skipped\<close>: the adapter
  is not called, and no call removes the override label.
\<close>

theorem force_reimplement_still_skipped:
  "processDeliverableCriteria
     (samplePayload [LabelObject (str ''claude-stage-implemented''),
                     LabelObject (str ''claude-force-reimplement'')]) quietWorld
   = (Inr (Skipped (str ''Implementation already exists'') (str ''implemented'')
             (Key (str ''PCP1-68'')) (str ''PCP1-67'')),
      quietWorld\<lparr>calls := [AddComment (str ''PCP1-68'')
                             (skippedComment (str ''implemented''))]\<rparr>)"
proof -
  let ?ls = "[LabelObject (str ''claude-stage-implemented''),
              LabelObject (str ''claude-force-reimplement'')]"
  have p: "issue (samplePayload ?ls) = Some (sampleCriteriaIssue ?ls)"
    by (simp add: samplePayload_def)
  have st: "getHighestStageCompleted (sampleCriteriaIssue ?ls) = str ''implemented''
            \<or> getHighestStageCompleted (sampleCriteriaIssue ?ls) = str ''tested''"
    by (simp add: sample_stage)
  have nf: "faults quietWorld (length (calls quietWorld)) = None"
    by (simp add: quietWorld_def)
  have k: "key (sampleCriteriaIssue ?ls) = Key (str ''PCP1-68'')"
    by (simp add: sampleCriteriaIssue_def)
  have c: "calls quietWorld = []" by (simp add: quietWorld_def)
  show ?thesis
    using skip_result [OF p sample_valid sample_key st nf]
    by (simp add: sample_stage k keyText_def c)
qed

lemma sample_try_unreachable:
  "deliverableCriteriaTry (sampleCriteriaIssue []) unreachableWorld =
     (Inl (Error (str ''fetch failed'')),
      unreachableWorld\<lparr>calls := [GetIssue (str ''PCP1-67'')]\<rparr>)"
proof -
  have steps: "deliverableCriteriaSteps (sampleCriteriaIssue []) (str ''PCP1-67'')
       unreachableWorld =
     (Inl (Error (str ''fetch failed'')),
      unreachableWorld\<lparr>calls := [GetIssue (str ''PCP1-67'')]\<rparr>)"
    by (simp add: deliverableCriteriaSteps_def getIssue_def external_def unreachableWorld_def
          quietWorld_def)
  show ?thesis
    by (simp add: deliverableCriteriaTry_def sample_valid sample_key sample_stage
          none_not_completed hasOverrideLabel_def Let_def steps)
qed

text \<open>
  What the \<open>catch\<close> does achieve: the fault pattern of the world is never changed, and
  an error leaves the method only out of a comment call that throws. Errors of the
  validation, of the key extraction, of the fetch, of the adapter and of the artifact
  writer become outcomes as long as the tracker takes the comment that reports them.
\<close>

lemma external_faults: "faults (snd (external c w)) = faults w"
  by (simp add: external_def split: option.splits)

lemma addComment_faults: "faults (snd (addComment k c w)) = faults w"
  by (simp add: addComment_def external_faults)

lemma getIssue_faults: "faults (snd (getIssue k w)) = faults w"
  by (simp add: getIssue_def external_def split: option.splits)

lemma generateImplementation_faults: "faults (snd (generateImplementation i k r w)) = faults w"
  by (simp add: generateImplementation_def external_def split: option.splits)

lemma createImplementationArtifacts_faults:
  "faults (snd (createImplementationArtifacts k r w)) = faults w"
  by (simp add: createImplementationArtifacts_def external_def split: option.splits)

lemma steps_faults: "faults (snd (deliverableCriteriaSteps i k w)) = faults w"
  unfolding deliverableCriteriaSteps_def Let_def
  using getIssue_faults [of k w]
  by (auto split: prod.splits sum.splits
       simp add: updateStageLabel_faults
       dest!: arg_cong [where f = "\<lambda>r. faults (snd r)"]
       simp: getIssue_faults generateImplementation_faults
         createImplementationArtifacts_faults addComment_faults)

lemma try_faults: "faults (snd (deliverableCriteriaTry i w)) = faults w"
  by (simp add: deliverableCriteriaTry_def Let_def hasOverrideLabel_def steps_faults
        addComment_def external_def split: option.splits prod.splits sum.splits)

lemma addComment_throws:
  assumes "addComment k c w = (Inl e, w')"
  shows "calls w' = calls w @ [AddComment k c]
         \<and> faults w (length (calls w)) = Some (message e)"
  using assms by (auto simp add: addComment_def external_def split: option.splits)

lemma escape_only_by_comment:
  assumes "issue p = Some i"
      and "processDeliverableCriteria p w = (Inl e, w')"
  shows "\<exists>cs c. calls w' = cs @ [AddComment (keyText (key i)) c]
                \<and> faults w (length cs) = Some (message e)"
proof -
  obtain r w1 where tr: "deliverableCriteriaTry i w = (r, w1)"
    by (cases "deliverableCriteriaTry i w")
  have f1: "faults w1 = faults w" using try_faults [of i w] tr by simp
  from assms tr obtain err where r: "r = Inl err"
    and c: "addComment (keyText (key i)) (systemErrorComment (message err)) w1 = (Inl e, w')"
    by (auto simp add: processDeliverableCriteria_def split: sum.splits prod.splits)
  from addComment_throws [OF c] f1 show ?thesis by auto
qed

lemma no_fault_returns_outcome:
  assumes "issue p = Some i" and "\<forall>n. faults w n = None"
  shows "\<exists>out w'. processDeliverableCriteria p w = (Inr out, w')"
proof (cases "processDeliverableCriteria p w")
  case (Pair r w')
  show ?thesis
  proof (cases r)
    case (Inl e)
    with Pair escape_only_by_comment [OF assms(1), of w e w'] assms(2) show ?thesis by auto
  next
    case (Inr out)
    with Pair show ?thesis by simp
  qed
qed

text \<open>
  Claim C9 at a failing input. The sample criteria issue, not yet implemented, is
  processed while the tracker is unreachable. Fetching the original issue throws; the
  \<open>catch\<close> of the method tries to post its comment, which throws as well; that error
  leaves \<open>processDeliverableCriteria\<close>, and no outcome object is returned.
\<close>

theorem error_comment_failure_escapes:
  "processDeliverableCriteria (samplePayload []) unreachableWorld =
     (Inl (Error (str ''fetch failed'')),
      unreachableWorld\<lparr>calls := [GetIssue (str ''PCP1-67''),
                                  AddComment (str ''PCP1-68'')
                                    (systemErrorComment (str ''fetch failed''))]\<rparr>)"
proof -
  have k: "keyText (key (sampleCriteriaIssue [])) = str ''PCP1-68''"
    by (simp add: sampleCriteriaIssue_def keyText_def)
  have c: "addComment (str ''PCP1-68'') (systemErrorComment (str ''fetch failed''))
             (unreachableWorld\<lparr>calls := [GetIssue (str ''PCP1-67'')]\<rparr>) =
           (Inl (Error (str ''fetch failed'')),
            unreachableWorld\<lparr>calls := [GetIssue (str ''PCP1-67''),
                                  AddComment (str ''PCP1-68'')
                                    (systemErrorComment (str ''fetch failed''))]\<rparr>)"
    by (simp add: addComment_def external_def unreachableWorld_def quietWorld_def)
  show ?thesis
    by (simp add: processDeliverableCriteria_def samplePayload_def sample_try_unreachable k c)
qed



section \<open>Properties of the key extraction\<close>

lemmas matcher_defs = projectSpecificAt_def genericAt_def permissiveAt_def
  originalIssueLineAt_def hyphenDigits_def extractOriginalIssueKey_def

lemma extract_project_specific:
  "truthy s \<Longrightarrow> regexSearch projectSpecificAt (orEmpty s) = Some k
     \<Longrightarrow> extractOriginalIssueKey s d = Some k"
  by (simp add: extractOriginalIssueKey_def)

lemma extract_generic:
  "truthy s \<Longrightarrow> regexSearch projectSpecificAt (orEmpty s) = None
     \<Longrightarrow> regexSearch genericAt (orEmpty s) = Some k
     \<Longrightarrow> extractOriginalIssueKey s d = Some k"
  by (simp add: extractOriginalIssueKey_def)

lemma extract_permissive:
  "truthy s \<Longrightarrow> regexSearch projectSpecificAt (orEmpty s) = None
     \<Longrightarrow> regexSearch genericAt (orEmpty s) = None
     \<Longrightarrow> regexSearch permissiveAt (orEmpty s) = Some k
     \<Longrightarrow> extractOriginalIssueKey s d = Some k"
  by (simp add: extractOriginalIssueKey_def)

lemma extract_description:
  "\<not> truthy s \<or> (regexSearch projectSpecificAt (orEmpty s) = None
        \<and> regexSearch genericAt (orEmpty s) = None
        \<and> regexSearch permissiveAt (orEmpty s) = None)
   \<Longrightarrow> extractOriginalIssueKey s d =
        (if truthy d then regexSearch originalIssueLineAt (orEmpty d) else None)"
  by (auto simp add: extractOriginalIssueKey_def)

lemma extract_none_iff:
  "extractOriginalIssueKey s d = None \<longleftrightarrow>
     (\<not> truthy s \<or> (regexSearch projectSpecificAt (orEmpty s) = None
        \<and> regexSearch genericAt (orEmpty s) = None
        \<and> regexSearch permissiveAt (orEmpty s) = None))
     \<and> (\<not> truthy d \<or> regexSearch originalIssueLineAt (orEmpty d) = None)"
  by (auto simp add: extractOriginalIssueKey_def split: option.splits)

lemma example_summary_key:
  "extractOriginalIssueKey (Some (str ''Deliverable Criteria: PCP1-67 - Fix login bug'')) d
     = Some (str ''PCP1-67'')"
proof -
  have "truthy (Some (str ''Deliverable Criteria: PCP1-67 - Fix login bug''))"
    by (simp add: truthy_def str_def)
  moreover have "regexSearch projectSpecificAt
          (orEmpty (Some (str ''Deliverable Criteria: PCP1-67 - Fix login bug'')))
        = Some (str ''PCP1-67'')"
    by (simp add: orEmpty_def sample_summary_match)
  ultimately show ?thesis by (rule extract_project_specific)
qed

lemma example_description_key:
  "extractOriginalIssueKey (Some (str ''Deliverable Criteria: Fix login bug''))
     (Some (str ''Criteria. **Original Issue:** ABC-12'')) = Some (str ''ABC-12'')"
  by (simp add: matcher_defs eval_defs Let_def)

lemma example_no_key:
  "extractOriginalIssueKey (Some (str ''Deliverable Criteria: Fix login bug''))
     (Some (str ''No reference here'')) = None"
  by (simp add: matcher_defs eval_defs Let_def)

text \<open>
  The order shows where several patterns match: the project-specific match wins over a
  generic and a permissive match further left, and the generic over the permissive.
\<close>

lemma example_priority:
  "extractOriginalIssueKey (Some (str ''ab-1 XY-2 PCP1-3'')) None = Some (str ''PCP1-3'')"
  "extractOriginalIssueKey (Some (str ''ab-1 XY-2 pcp1-3'')) None = Some (str ''XY-2'')"
  "extractOriginalIssueKey (Some (str ''ab-1 X-2 pcp1-3'')) None = Some (str ''ab-1'')"
  by (simp_all add: matcher_defs eval_defs Let_def)

text \<open>
  The scan of \<open>regexSearch\<close> finds the first piece in a set \<open>L\<close> of texts, given that the
  matcher succeeds exactly on the texts that start with a piece in \<open>L\<close> and returns the
  longest such piece (\<open>g\<close> turns the returned group into the whole match).
\<close>

lemma firstIn_occursIn: "firstIn L s k \<Longrightarrow> occursIn L s"
  unfolding firstIn_def occursIn_def by blast

lemma regexSearch_firstIn:
  assumes sound: "\<And>t k. m t = Some k \<Longrightarrow> \<exists>post. t = g k @ post \<and> L (g k)"
      and complete: "\<And>k' post'. L k' \<Longrightarrow>
                       \<exists>k. m (k' @ post') = Some k \<and> length k' \<le> length (g k)"
      and found: "regexSearch m s = Some k"
  shows "firstIn L s (g k)"
  using found
proof (induction s)
  case Nil
  then have "m [] = Some k" by simp
  from sound [OF this] have e: "g k = []" and l: "L (g k)" by auto
  show ?case
    unfolding firstIn_def
    by (rule exI [of _ "[]"], rule exI [of _ "[]"]) (use e l in auto)
next
  case (Cons c cs)
  show ?case
  proof (cases "m (c # cs)")
    case (Some k0)
    with Cons.prems have k: "m (c # cs) = Some k" by simp
    from sound [OF k] obtain post where t: "c # cs = g k @ post" and l: "L (g k)" by blast
    have longest: "length k' \<le> length (g k)" if "g k @ post = k' @ post'" "L k'" for k' post'
    proof -
      from complete [OF that(2), of post'] obtain k2
        where "m (k' @ post') = Some k2" "length k' \<le> length (g k2)" by blast
      with that(1) t k show ?thesis by simp
    qed
    show ?thesis
      unfolding firstIn_def
      by (rule exI [of _ "[]"], rule exI [of _ post]) (use t l longest in auto)
  next
    case None
    with Cons.prems have "regexSearch m cs = Some k" by simp
    from Cons.IH [OF this] obtain pre post where
      s: "cs = pre @ g k @ post" and l: "L (g k)"
      and longest: "\<forall>k' post'. g k @ post = k' @ post' \<and> L k' \<longrightarrow> length k' \<le> length (g k)"
      and leftmost: "\<forall>pre' k' post'. cs = pre' @ k' @ post' \<and> L k' \<longrightarrow> length pre \<le> length pre'"
      unfolding firstIn_def by blast
    have left: "length (c # pre) \<le> length pre'"
      if "c # cs = pre' @ k' @ post'" "L k'" for pre' k' post'
    proof (cases pre')
      case Nil
      from complete [OF that(2), of post'] obtain k2 where "m (k' @ post') = Some k2" by blast
      with that(1) Nil None show ?thesis by simp
    next
      case (Cons a p)
      with that(1) have "cs = p @ k' @ post'" by simp
      with leftmost that(2) have "length pre \<le> length p" by blast
      with Cons show ?thesis by simp
    qed
    show ?thesis
      unfolding firstIn_def
      by (rule exI [of _ "c # pre"], rule exI [of _ post]) (use s l longest left in auto)
  qed
qed

lemma regexSearch_none:
  assumes complete: "\<And>k' post'. L k' \<Longrightarrow>
                       \<exists>k. m (k' @ post') = Some k \<and> length k' \<le> length (g k)"
      and none: "regexSearch m s = None"
  shows "\<not> occursIn L s"
  using none
proof (induction s)
  case Nil
  show ?case
  proof
    assume "occursIn L []"
    then have "L []" by (auto simp add: occursIn_def)
    from complete [OF this, of "[]"] Nil show False by simp
  qed
next
  case (Cons c cs)
  then have here: "m (c # cs) = None" and later: "regexSearch m cs = None"
    by (simp_all split: option.splits)
  show ?case
  proof
    assume "occursIn L (c # cs)"
    then obtain pre k' post' where s: "c # cs = pre @ k' @ post'" and l: "L k'"
      by (auto simp add: occursIn_def)
    show False
    proof (cases pre)
      case Nil
      from complete [OF l, of post'] s Nil here show False by simp
    next
      case (Cons a p)
      with s have "cs = p @ k' @ post'" by simp
      with l have "occursIn L cs" by (auto simp add: occursIn_def)
      with Cons.IH [OF later] show False by simp
    qed
  qed
qed

text \<open>Each matcher succeeds exactly where its pattern matches, with the longest match.\<close>

lemma takeWhile_all: "list_all P (takeWhile P xs)"
  by (induction xs) simp_all

lemma run_takeWhile:
  assumes "list_all P ls" and "rest = [] \<or> \<not> P (hd rest)"
  shows "takeWhile P (ls @ rest) = ls" and "dropWhile P (ls @ rest) = rest"
proof -
  from assms(1) have all: "\<And>x. x \<in> set ls \<Longrightarrow> P x" by (simp add: list_all_iff)
  from assms(2) have t: "takeWhile P rest = []" and d: "dropWhile P rest = rest"
    by (cases rest; auto)+
  show "takeWhile P (ls @ rest) = ls" using all t by (simp add: takeWhile_append2)
  show "dropWhile P (ls @ rest) = rest" using all d by (simp add: dropWhile_append2)
qed

lemma takeWhile_prefix_run:
  assumes "list_all P ds"
  shows "takeWhile P (ds @ post) = ds @ takeWhile P post"
  using assms by (simp add: list_all_iff takeWhile_append2)

lemma not_classes:
  "\<not> isUpper hyphen" "\<not> isLetter hyphen" "\<not> isDigit hyphen"
  "isDigit c \<Longrightarrow> \<not> isLetter c" "isUpper c \<Longrightarrow> isLetter c"
  by (auto simp add: isUpper_def isLetter_def isDigit_def hyphen_def)

lemma hyphenDigits_run:
  assumes "ds \<noteq> []" and "list_all isDigit ds"
  shows "hyphenDigits (hyphen # ds @ post) = Some (hyphen # ds @ takeWhile isDigit post)"
  using assms by (simp add: hyphenDigits_def takeWhile_prefix_run)

lemma hyphenDigits_sound:
  assumes "hyphenDigits t = Some u"
  shows "\<exists>ds post. t = hyphen # ds @ post \<and> u = hyphen # ds \<and> ds \<noteq> []
           \<and> list_all isDigit ds"
proof -
  from assms obtain r where t: "t = hyphen # r" and u: "u = hyphen # takeWhile isDigit r"
    and ne: "takeWhile isDigit r \<noteq> []"
    by (auto simp add: hyphenDigits_def split: list.splits if_splits)
  have "t = hyphen # takeWhile isDigit r @ dropWhile isDigit r" using t by simp
  with u ne takeWhile_all [of isDigit r] show ?thesis by blast
qed


lemma genericAt_complete:
  assumes "2 \<le> length ls" "list_all isUpper ls" "ds \<noteq> []" "list_all isDigit ds"
  shows "genericAt (ls @ hyphen # ds @ post) = Some (ls @ hyphen # ds @ takeWhile isDigit post)"
proof -
  have "takeWhile isUpper (ls @ hyphen # ds @ post) = ls"
       "dropWhile isUpper (ls @ hyphen # ds @ post) = hyphen # ds @ post"
    using run_takeWhile [OF assms(2), of "hyphen # ds @ post"] by (simp_all add: not_classes)
  then show ?thesis
    using assms(1) by (simp add: genericAt_def Let_def hyphenDigits_run [OF assms(3,4)])
qed

lemma genericAt_sound:
  assumes "genericAt t = Some k"
  shows "\<exists>post. t = k @ post \<and> genericKey k"
proof -
  from assms obtain u where h: "hyphenDigits (dropWhile isUpper t) = Some u"
      and k: "k = takeWhile isUpper t @ u" and len: "2 \<le> length (takeWhile isUpper t)"
    by (auto simp add: genericAt_def Let_def split: if_splits option.splits)
  from hyphenDigits_sound [OF h] obtain ds post where
    d: "dropWhile isUpper t = hyphen # ds @ post" and u: "u = hyphen # ds"
    and ds: "ds \<noteq> []" "list_all isDigit ds" by blast
  have "t = takeWhile isUpper t @ dropWhile isUpper t" by simp
  with d k u have "t = k @ post" by simp
  moreover have "genericKey k"
    unfolding genericKey_def using k u len ds takeWhile_all [of isUpper t] by blast
  ultimately show ?thesis by blast
qed

lemma genericAt_longest:
  assumes "genericKey k'"
  shows "\<exists>k. genericAt (k' @ post') = Some k \<and> length k' \<le> length k"
proof -
  from assms obtain ls ds where k': "k' = ls @ hyphen # ds"
    and c: "2 \<le> length ls" "list_all isUpper ls" "ds \<noteq> []" "list_all isDigit ds"
    unfolding genericKey_def by blast
  from genericAt_complete [OF c, of post'] k' show ?thesis by simp
qed


lemma pcp1: "str ''PCP1-'' = str ''PCP1'' @ [hyphen]" "length (str ''PCP1'') = 4"
  by (simp_all add: str_def hyphen_def)

lemma projectSpecificAt_complete:
  assumes "ds \<noteq> []" "list_all isDigit ds"
  shows "projectSpecificAt (str ''PCP1-'' @ ds @ post)
           = Some (str ''PCP1-'' @ ds @ takeWhile isDigit post)"
  using hyphenDigits_run [OF assms, of post]
  by (simp add: projectSpecificAt_def pcp1 startsWith_append_self)

lemma startsWith_decompose: "startsWith s p \<Longrightarrow> s = p @ drop (length p) s"
  by (induction s p rule: startsWith.induct) auto

lemma projectSpecificAt_sound:
  assumes "projectSpecificAt t = Some k"
  shows "\<exists>post. t = k @ post \<and> projectKey k"
proof -
  from assms obtain u where st: "startsWith t (str ''PCP1'')"
      and h: "hyphenDigits (drop 4 t) = Some u" and k: "k = str ''PCP1'' @ u"
    by (auto simp add: projectSpecificAt_def split: if_splits option.splits)
  from hyphenDigits_sound [OF h] obtain ds post where
    d: "drop 4 t = hyphen # ds @ post" and u: "u = hyphen # ds"
    and ds: "ds \<noteq> []" "list_all isDigit ds" by blast
  from startsWith_decompose [OF st] have "t = str ''PCP1'' @ drop 4 t" by (simp add: pcp1)
  with d k u have "t = k @ post" by simp
  moreover have "projectKey k"
    unfolding projectKey_def using k u ds by (auto simp add: pcp1)
  ultimately show ?thesis by blast
qed

lemma projectSpecificAt_longest:
  assumes "projectKey k'"
  shows "\<exists>k. projectSpecificAt (k' @ post') = Some k \<and> length k' \<le> length k"
proof -
  from assms obtain ds where k': "k' = str ''PCP1-'' @ ds"
    and c: "ds \<noteq> []" "list_all isDigit ds"
    unfolding projectKey_def by blast
  from projectSpecificAt_complete [OF c, of post'] k' show ?thesis by simp
qed


lemma digits_then_hyphen_no_letter:
  assumes "list_all isDigit ns"
  shows "ns @ hyphen # r = [] \<or> \<not> isLetter (hd (ns @ hyphen # r))"
  using assms by (cases ns) (simp_all add: not_classes)

lemma permissiveAt_complete:
  assumes "ls \<noteq> []" "list_all isLetter ls" "list_all isDigit ns" "ds \<noteq> []" "list_all isDigit ds"
  shows "permissiveAt (ls @ ns @ hyphen # ds @ post)
           = Some (ls @ ns @ hyphen # ds @ takeWhile isDigit post)"
proof -
  have l: "takeWhile isLetter (ls @ ns @ hyphen # ds @ post) = ls"
          "dropWhile isLetter (ls @ ns @ hyphen # ds @ post) = ns @ hyphen # ds @ post"
    using run_takeWhile [OF assms(2) digits_then_hyphen_no_letter [OF assms(3)], of "ds @ post"]
    by simp_all
  have n: "takeWhile isDigit (ns @ hyphen # ds @ post) = ns"
          "dropWhile isDigit (ns @ hyphen # ds @ post) = hyphen # ds @ post"
    using run_takeWhile [OF assms(3), of "hyphen # ds @ post"] by (simp_all add: not_classes)
  show ?thesis
    using assms(1) by (simp add: permissiveAt_def Let_def l n hyphenDigits_run [OF assms(4,5)])
qed

lemma permissiveAt_sound:
  assumes "permissiveAt t = Some k"
  shows "\<exists>post. t = k @ post \<and> permissiveKey k"
proof -
  let ?r = "dropWhile isLetter t"
  from assms obtain u where h: "hyphenDigits (dropWhile isDigit ?r) = Some u"
      and k: "k = takeWhile isLetter t @ takeWhile isDigit ?r @ u"
      and ne: "takeWhile isLetter t \<noteq> []"
    by (auto simp add: permissiveAt_def Let_def split: if_splits option.splits)
  from hyphenDigits_sound [OF h] obtain ds post where
    d: "dropWhile isDigit ?r = hyphen # ds @ post" and u: "u = hyphen # ds"
    and ds: "ds \<noteq> []" "list_all isDigit ds" by blast
  have "t = takeWhile isLetter t @ takeWhile isDigit ?r @ dropWhile isDigit ?r"
    by simp
  with d k u have "t = k @ post" by simp
  moreover have "permissiveKey k"
    unfolding permissiveKey_def
    using k u ne ds takeWhile_all [of isLetter t] takeWhile_all [of isDigit ?r] by blast
  ultimately show ?thesis by blast
qed

lemma permissiveAt_longest:
  assumes "permissiveKey k'"
  shows "\<exists>k. permissiveAt (k' @ post') = Some k \<and> length k' \<le> length k"
proof -
  from assms obtain ls ns ds where k': "k' = ls @ ns @ hyphen # ds"
    and c: "ls \<noteq> []" "list_all isLetter ls" "list_all isDigit ns" "ds \<noteq> []" "list_all isDigit ds"
    unfolding permissiveKey_def by blast
  from permissiveAt_complete [OF c, of post'] k' show ?thesis by simp
qed


lemma originalIssueLineAt_complete:
  assumes "ls \<noteq> []" "list_all isUpper ls" "ds \<noteq> []" "list_all isDigit ds"
  shows "originalIssueLineAt (str ''**Original Issue:** '' @ ls @ hyphen # ds @ post)
           = Some (ls @ hyphen # ds @ takeWhile isDigit post)"
proof -
  have "takeWhile isUpper (ls @ hyphen # ds @ post) = ls"
       "dropWhile isUpper (ls @ hyphen # ds @ post) = hyphen # ds @ post"
    using run_takeWhile [OF assms(2), of "hyphen # ds @ post"] by (simp_all add: not_classes)
  then show ?thesis
    using assms(1)
    by (simp add: originalIssueLineAt_def Let_def startsWith_append_self
          hyphenDigits_run [OF assms(3,4)])
qed

lemma originalIssueLineAt_sound:
  assumes "originalIssueLineAt t = Some k"
  shows "\<exists>post. t = (str ''**Original Issue:** '' @ k) @ post
            \<and> originalIssueLine (str ''**Original Issue:** '' @ k)"
proof -
  let ?label = "str ''**Original Issue:** ''"
  let ?r = "drop (length ?label) t"
  from assms obtain u where st: "startsWith t ?label"
      and h: "hyphenDigits (dropWhile isUpper ?r) = Some u"
      and k: "k = takeWhile isUpper ?r @ u" and ne: "takeWhile isUpper ?r \<noteq> []"
    by (auto simp add: originalIssueLineAt_def Let_def split: if_splits option.splits)
  from hyphenDigits_sound [OF h] obtain ds post where
    d: "dropWhile isUpper ?r = hyphen # ds @ post" and u: "u = hyphen # ds"
    and ds: "ds \<noteq> []" "list_all isDigit ds" by blast
  have "?r = takeWhile isUpper ?r @ dropWhile isUpper ?r" by simp
  with d k u have r: "?r = k @ post" by simp
  from startsWith_decompose [OF st] r have "t = (?label @ k) @ post" by simp
  moreover have "originalIssueLine (?label @ k)"
    unfolding originalIssueLine_def using k u ne ds takeWhile_all [of isUpper ?r] by blast
  ultimately show ?thesis by blast
qed

lemma originalIssueLineAt_longest:
  assumes "originalIssueLine k'"
  shows "\<exists>k. originalIssueLineAt (k' @ post') = Some k
           \<and> length k' \<le> length (str ''**Original Issue:** '' @ k)"
proof -
  from assms obtain ls ds where k': "k' = str ''**Original Issue:** '' @ ls @ hyphen # ds"
    and c: "ls \<noteq> []" "list_all isUpper ls" "ds \<noteq> []" "list_all isDigit ds"
    unfolding originalIssueLine_def by blast
  from originalIssueLineAt_complete [OF c, of post'] k' show ?thesis by simp
qed

lemma search_project:
  "regexSearch projectSpecificAt s = Some k \<Longrightarrow> firstIn projectKey s k"
  "regexSearch projectSpecificAt s = None \<Longrightarrow> \<not> occursIn projectKey s"
  using regexSearch_firstIn [of projectSpecificAt "\<lambda>k. k" projectKey s k,
          OF projectSpecificAt_sound projectSpecificAt_longest]
        regexSearch_none [of projectKey projectSpecificAt "\<lambda>k. k" s,
          OF projectSpecificAt_longest]
  by simp_all

lemma search_generic:
  "regexSearch genericAt s = Some k \<Longrightarrow> firstIn genericKey s k"
  "regexSearch genericAt s = None \<Longrightarrow> \<not> occursIn genericKey s"
  using regexSearch_firstIn [of genericAt "\<lambda>k. k" genericKey s k,
          OF genericAt_sound genericAt_longest]
        regexSearch_none [of genericKey genericAt "\<lambda>k. k" s, OF genericAt_longest]
  by simp_all

lemma search_permissive:
  "regexSearch permissiveAt s = Some k \<Longrightarrow> firstIn permissiveKey s k"
  "regexSearch permissiveAt s = None \<Longrightarrow> \<not> occursIn permissiveKey s"
  using regexSearch_firstIn [of permissiveAt "\<lambda>k. k" permissiveKey s k,
          OF permissiveAt_sound permissiveAt_longest]
        regexSearch_none [of permissiveKey permissiveAt "\<lambda>k. k" s, OF permissiveAt_longest]
  by simp_all

lemma search_description:
  "regexSearch originalIssueLineAt s = Some k
     \<Longrightarrow> firstIn originalIssueLine s (str ''**Original Issue:** '' @ k)"
  "regexSearch originalIssueLineAt s = None \<Longrightarrow> \<not> occursIn originalIssueLine s"
  using regexSearch_firstIn [of originalIssueLineAt "\<lambda>k. str ''**Original Issue:** '' @ k"
          originalIssueLine s k, OF originalIssueLineAt_sound originalIssueLineAt_longest]
        regexSearch_none [of originalIssueLine originalIssueLineAt
          "\<lambda>k. str ''**Original Issue:** '' @ k" s, OF originalIssueLineAt_longest]
  by simp_all

lemma none_iff:
  "regexSearch projectSpecificAt s = None \<longleftrightarrow> \<not> occursIn projectKey s"
  "regexSearch genericAt s = None \<longleftrightarrow> \<not> occursIn genericKey s"
  "regexSearch permissiveAt s = None \<longleftrightarrow> \<not> occursIn permissiveKey s"
  "regexSearch originalIssueLineAt s = None \<longleftrightarrow> \<not> occursIn originalIssueLine s"
proof -
  show "regexSearch projectSpecificAt s = None \<longleftrightarrow> \<not> occursIn projectKey s"
  proof (cases "regexSearch projectSpecificAt s")
    case None
    with search_project(2) [OF None] show ?thesis by simp
  next
    case (Some k)
    with firstIn_occursIn [OF search_project(1) [OF Some]] show ?thesis by simp
  qed
  show "regexSearch genericAt s = None \<longleftrightarrow> \<not> occursIn genericKey s"
  proof (cases "regexSearch genericAt s")
    case None
    with search_generic(2) [OF None] show ?thesis by simp
  next
    case (Some k)
    with firstIn_occursIn [OF search_generic(1) [OF Some]] show ?thesis by simp
  qed
  show "regexSearch permissiveAt s = None \<longleftrightarrow> \<not> occursIn permissiveKey s"
  proof (cases "regexSearch permissiveAt s")
    case None
    with search_permissive(2) [OF None] show ?thesis by simp
  next
    case (Some k)
    with firstIn_occursIn [OF search_permissive(1) [OF Some]] show ?thesis by simp
  qed
  show "regexSearch originalIssueLineAt s = None \<longleftrightarrow> \<not> occursIn originalIssueLine s"
  proof (cases "regexSearch originalIssueLineAt s")
    case None
    with search_description(2) [OF None] show ?thesis by simp
  next
    case (Some k)
    with firstIn_occursIn [OF search_description(1) [OF Some]] show ?thesis by simp
  qed
qed

lemma projectKey_permissive: "projectKey k \<Longrightarrow> permissiveKey k"
proof -
  assume "projectKey k"
  then obtain ds where k: "k = str ''PCP1-'' @ ds" and ds: "ds \<noteq> []" "list_all isDigit ds"
    unfolding projectKey_def by blast
  have "k = str ''PCP'' @ str ''1'' @ hyphen # ds" using k by (simp add: str_def hyphen_def)
  moreover have "str ''PCP'' \<noteq> []" "list_all isLetter (str ''PCP'')" "list_all isDigit (str ''1'')"
    by (simp_all add: str_def isLetter_def isDigit_def)
  ultimately show "permissiveKey k" unfolding permissiveKey_def using ds by blast
qed

lemma genericKey_permissive: "genericKey k \<Longrightarrow> permissiveKey k"
proof -
  assume "genericKey k"
  then obtain ls ds where k: "k = ls @ hyphen # ds" and c: "2 \<le> length ls" "list_all isUpper ls"
      "ds \<noteq> []" "list_all isDigit ds"
    unfolding genericKey_def by blast
  have "k = ls @ [] @ hyphen # ds" using k by simp
  moreover have "ls \<noteq> []" using c(1) by auto
  moreover have "list_all isLetter ls" using c(2) by (auto simp add: list_all_iff not_classes)
  moreover have "list_all isDigit []" by simp
  ultimately show "permissiveKey k" unfolding permissiveKey_def using c(3,4) by blast
qed

lemma occursIn_mono: "(\<And>k. L k \<Longrightarrow> M k) \<Longrightarrow> occursIn L s \<Longrightarrow> occursIn M s"
  unfolding occursIn_def by blast

lemma no_permissive:
  assumes "\<not> occursIn permissiveKey s"
  shows "regexSearch projectSpecificAt s = None" "regexSearch genericAt s = None"
        "regexSearch permissiveAt s = None"
  using assms occursIn_mono [of projectKey permissiveKey s, OF projectKey_permissive]
        occursIn_mono [of genericKey permissiveKey s, OF genericKey_permissive]
  by (auto simp add: none_iff)

text \<open>
  Claim C5. When the summary is a non-empty string holding a project-specific key, the
  result is the first such key in it; otherwise, when it holds a generic key, the first
  of those; otherwise, when it holds a permissive key, the first of those. When the
  summary is absent, empty or holds no key of any of the three kinds (every project or
  generic key is a permissive one), the result is the key of the first
  \<open>**Original Issue:**\<close> line of a non-empty description. No key is returned exactly when
  neither text yields one. The three examples of the specification hold, and so do three
  summaries in which a later pattern matches further left than the one that wins.
\<close>

theorem extractOriginalIssueKey_in_order:
  "(truthy s \<and> occursIn projectKey (orEmpty s)
      \<longrightarrow> (\<exists>k. extractOriginalIssueKey s d = Some k \<and> firstIn projectKey (orEmpty s) k))
   \<and> (truthy s \<and> \<not> occursIn projectKey (orEmpty s) \<and> occursIn genericKey (orEmpty s)
      \<longrightarrow> (\<exists>k. extractOriginalIssueKey s d = Some k \<and> firstIn genericKey (orEmpty s) k))
   \<and> (truthy s \<and> \<not> occursIn projectKey (orEmpty s) \<and> \<not> occursIn genericKey (orEmpty s)
        \<and> occursIn permissiveKey (orEmpty s)
      \<longrightarrow> (\<exists>k. extractOriginalIssueKey s d = Some k \<and> firstIn permissiveKey (orEmpty s) k))
   \<and> ((\<not> truthy s \<or> \<not> occursIn permissiveKey (orEmpty s))
        \<and> truthy d \<and> occursIn originalIssueLine (orEmpty d)
      \<longrightarrow> (\<exists>k. extractOriginalIssueKey s d = Some k
             \<and> firstIn originalIssueLine (orEmpty d) (str ''**Original Issue:** '' @ k)))
   \<and> (extractOriginalIssueKey s d = None \<longleftrightarrow>
        (\<not> truthy s \<or> \<not> occursIn permissiveKey (orEmpty s))
        \<and> (\<not> truthy d \<or> \<not> occursIn originalIssueLine (orEmpty d)))
   \<and> extractOriginalIssueKey (Some (str ''Deliverable Criteria: PCP1-67 - Fix login bug'')) d
        = Some (str ''PCP1-67'')
   \<and> extractOriginalIssueKey (Some (str ''Deliverable Criteria: Fix login bug''))
        (Some (str ''Criteria. **Original Issue:** ABC-12'')) = Some (str ''ABC-12'')
   \<and> extractOriginalIssueKey (Some (str ''Deliverable Criteria: Fix login bug''))
        (Some (str ''No reference here'')) = None
   \<and> extractOriginalIssueKey (Some (str ''ab-1 XY-2 PCP1-3'')) None = Some (str ''PCP1-3'')
   \<and> extractOriginalIssueKey (Some (str ''ab-1 XY-2 pcp1-3'')) None = Some (str ''XY-2'')
   \<and> extractOriginalIssueKey (Some (str ''ab-1 X-2 pcp1-3'')) None = Some (str ''ab-1'')"
proof (intro conjI impI)
  assume "truthy s \<and> occursIn projectKey (orEmpty s)"
  then have t: "truthy s" and "regexSearch projectSpecificAt (orEmpty s) \<noteq> None"
    by (simp_all add: none_iff)
  then obtain k where k: "regexSearch projectSpecificAt (orEmpty s) = Some k" by blast
  from extract_project_specific [OF t k] search_project(1) [OF k]
  show "\<exists>k. extractOriginalIssueKey s d = Some k \<and> firstIn projectKey (orEmpty s) k" by blast
next
  assume "truthy s \<and> \<not> occursIn projectKey (orEmpty s) \<and> occursIn genericKey (orEmpty s)"
  then have t: "truthy s" and p: "regexSearch projectSpecificAt (orEmpty s) = None"
    and "regexSearch genericAt (orEmpty s) \<noteq> None"
    by (simp_all add: none_iff)
  then obtain k where k: "regexSearch genericAt (orEmpty s) = Some k" by blast
  from extract_generic [OF t p k] search_generic(1) [OF k]
  show "\<exists>k. extractOriginalIssueKey s d = Some k \<and> firstIn genericKey (orEmpty s) k" by blast
next
  assume "truthy s \<and> \<not> occursIn projectKey (orEmpty s) \<and> \<not> occursIn genericKey (orEmpty s)
        \<and> occursIn permissiveKey (orEmpty s)"
  then have t: "truthy s" and p: "regexSearch projectSpecificAt (orEmpty s) = None"
    and g: "regexSearch genericAt (orEmpty s) = None"
    and "regexSearch permissiveAt (orEmpty s) \<noteq> None"
    by (simp_all add: none_iff)
  then obtain k where k: "regexSearch permissiveAt (orEmpty s) = Some k" by blast
  from extract_permissive [OF t p g k] search_permissive(1) [OF k]
  show "\<exists>k. extractOriginalIssueKey s d = Some k \<and> firstIn permissiveKey (orEmpty s) k" by blast
next
  assume a: "(\<not> truthy s \<or> \<not> occursIn permissiveKey (orEmpty s))
        \<and> truthy d \<and> occursIn originalIssueLine (orEmpty d)"
  then have "\<not> truthy s \<or> (regexSearch projectSpecificAt (orEmpty s) = None
        \<and> regexSearch genericAt (orEmpty s) = None
        \<and> regexSearch permissiveAt (orEmpty s) = None)"
    using no_permissive [of "orEmpty s"] by blast
  from extract_description [OF this, of d] a
  have e: "extractOriginalIssueKey s d = regexSearch originalIssueLineAt (orEmpty d)" by simp
  from a have "regexSearch originalIssueLineAt (orEmpty d) \<noteq> None" by (simp add: none_iff)
  then obtain k where k: "regexSearch originalIssueLineAt (orEmpty d) = Some k" by blast
  from e k search_description(1) [OF k]
  show "\<exists>k. extractOriginalIssueKey s d = Some k
             \<and> firstIn originalIssueLine (orEmpty d) (str ''**Original Issue:** '' @ k)" by simp
next
  show "extractOriginalIssueKey s d = None \<longleftrightarrow>
        (\<not> truthy s \<or> \<not> occursIn permissiveKey (orEmpty s))
        \<and> (\<not> truthy d \<or> \<not> occursIn originalIssueLine (orEmpty d))"
    using no_permissive [of "orEmpty s"]
    by (auto simp add: extract_none_iff none_iff)
qed (rule example_summary_key example_description_key example_no_key example_priority)+

text \<open>
  One summary for each of the three patterns, with matches of the later patterns further
  left; the description fallback; and a pair of texts without any key.
\<close>

theorem extractOriginalIssueKey_in_order_witness:
  "extractOriginalIssueKey (Some (str ''ab-1 XY-2 PCP1-3'')) None = Some (str ''PCP1-3'')
   \<and> firstIn projectKey (str ''ab-1 XY-2 PCP1-3'') (str ''PCP1-3'')
   \<and> extractOriginalIssueKey (Some (str ''ab-1 XY-2 pcp1-3'')) None = Some (str ''XY-2'')
   \<and> firstIn genericKey (str ''ab-1 XY-2 pcp1-3'') (str ''XY-2'')
   \<and> extractOriginalIssueKey (Some (str ''ab-1 X-2 pcp1-3'')) None = Some (str ''ab-1'')
   \<and> firstIn permissiveKey (str ''ab-1 X-2 pcp1-3'') (str ''ab-1'')
   \<and> extractOriginalIssueKey (Some (str ''Deliverable Criteria: Fix login bug''))
        (Some (str ''Criteria. **Original Issue:** ABC-12'')) = Some (str ''ABC-12'')
   \<and> firstIn originalIssueLine (str ''Criteria. **Original Issue:** ABC-12'')
        (str ''**Original Issue:** '' @ str ''ABC-12'')
   \<and> extractOriginalIssueKey (Some (str ''Deliverable Criteria: Fix login bug''))
        (Some (str ''No reference here'')) = None"
proof -
  let ?a = "str ''ab-1 XY-2 PCP1-3''"
  let ?b = "str ''ab-1 XY-2 pcp1-3''"
  let ?c = "str ''ab-1 X-2 pcp1-3''"
  let ?s = "str ''Deliverable Criteria: Fix login bug''"
  let ?d = "str ''Criteria. **Original Issue:** ABC-12''"
  let ?n = "str ''No reference here''"
  have t: "truthy (Some ?a)" "truthy (Some ?b)" "truthy (Some ?c)" "truthy (Some ?s)"
          "truthy (Some ?d)" "truthy (Some ?n)"
    by (simp_all add: truthy_def str_def)
  have a: "occursIn projectKey ?a"
    using none_iff(1) [of ?a] by (simp add: matcher_defs eval_defs Let_def)
  have b: "\<not> occursIn projectKey ?b" "occursIn genericKey ?b"
    using none_iff(1,2) [of ?b] by (simp_all add: matcher_defs eval_defs Let_def)
  have c: "\<not> occursIn projectKey ?c" "\<not> occursIn genericKey ?c" "occursIn permissiveKey ?c"
    using none_iff(1,2,3) [of ?c] by (simp_all add: matcher_defs eval_defs Let_def)
  have s: "\<not> occursIn permissiveKey ?s"
    using none_iff(3) [of ?s] by (simp add: matcher_defs eval_defs Let_def)
  have d: "occursIn originalIssueLine ?d"
    using none_iff(4) [of ?d] by (simp add: matcher_defs eval_defs Let_def)
  have n: "\<not> occursIn originalIssueLine ?n"
    using none_iff(4) [of ?n] by (simp add: matcher_defs eval_defs Let_def)
  have ea: "extractOriginalIssueKey (Some ?a) None = Some (str ''PCP1-3'')"
   and eb: "extractOriginalIssueKey (Some ?b) None = Some (str ''XY-2'')"
   and ec: "extractOriginalIssueKey (Some ?c) None = Some (str ''ab-1'')"
   and ed: "extractOriginalIssueKey (Some ?s) (Some ?d) = Some (str ''ABC-12'')"
    by (simp_all add: matcher_defs eval_defs Let_def)
  from extractOriginalIssueKey_in_order [of "Some ?a" None] t a ea
  have 1: "firstIn projectKey ?a (str ''PCP1-3'')" by (auto simp add: orEmpty_def)
  from extractOriginalIssueKey_in_order [of "Some ?b" None] t b eb
  have 2: "firstIn genericKey ?b (str ''XY-2'')" by (auto simp add: orEmpty_def)
  from extractOriginalIssueKey_in_order [of "Some ?c" None] t c ec
  have 3: "firstIn permissiveKey ?c (str ''ab-1'')" by (auto simp add: orEmpty_def)
  from extractOriginalIssueKey_in_order [of "Some ?s" "Some ?d"] t s d ed
  have 4: "firstIn originalIssueLine ?d (str ''**Original Issue:** '' @ str ''ABC-12'')"
    by (auto simp add: orEmpty_def)
  from extractOriginalIssueKey_in_order [of "Some ?s" "Some ?n"] t s n
  have 5: "extractOriginalIssueKey (Some ?s) (Some ?n) = None" by (simp add: orEmpty_def)
  from ea eb ec ed 1 2 3 4 5 show ?thesis by blast
qed


section \<open>Properties of the section extraction\<close>

lemma bullet_not_white: "\<not> isWhiteSpace bullet"
  by (simp add: isWhiteSpace_def bullet_def)

lemma trim_dropWhile: "trim (dropWhile isWhiteSpace s) = trim s"
  by (simp add: trim_def)

lemma trim_bullet_line: "trim (bullet # r) = bullet # rev (dropWhile isWhiteSpace (rev r))"
  by (simp add: trim_def bullet_not_white dropWhile_append3)

text \<open>
  On a list of lines in which every line that either method takes for a bullet line starts
  with the bullet in its first column and has text after it, the two pipelines agree: both
  keep exactly these lines, and both reduce such a line to the trimmed text after the
  bullet.
\<close>

lemma lines_agree:
  assumes "\<forall>line \<in> set ls.
             startsWith (trim line) [bullet] \<or> startsWith (trim line) [hyphen]
               \<longrightarrow> startsWith line [bullet] \<and> trim (tl line) \<noteq> []"
  shows "filter (\<lambda>line. length line > 0)
           (map (\<lambda>line. trim (stripLeadingBullet line))
             (filter (\<lambda>line. startsWith (trim line) [bullet] \<or> startsWith (trim line) [hyphen])
                ls))
       = map (\<lambda>line. trim (remove1 bullet line))
           (filter (\<lambda>line. startsWith (trim line) [bullet]) ls)"
  using assms
proof (induction ls)
  case Nil
  then show ?case by simp
next
  case (Cons l ls)
  then have pl: "startsWith (trim l) [bullet] \<or> startsWith (trim l) [hyphen]
                   \<longrightarrow> startsWith l [bullet] \<and> trim (tl l) \<noteq> []"
    and rest: "\<forall>line \<in> set ls.
             startsWith (trim line) [bullet] \<or> startsWith (trim line) [hyphen]
               \<longrightarrow> startsWith line [bullet] \<and> trim (tl line) \<noteq> []"
    by simp_all
  note IH = Cons.IH [OF rest]
  show ?case
  proof (cases "startsWith (trim l) [bullet] \<or> startsWith (trim l) [hyphen]")
    case False
    with IH show ?thesis by simp
  next
    case True
    with pl have col: "startsWith l [bullet]" and ne: "trim (tl l) \<noteq> []"
      by simp_all
    from col obtain r where l: "l = bullet # r"
      by (auto simp add: startsWith_single)
    have kept: "startsWith (trim l) [bullet]"
      by (simp add: l trim_bullet_line)
    have ev: "trim (stripLeadingBullet l) = trim r"
      by (simp add: l stripLeadingBullet_def trim_dropWhile)
    have pr: "trim (remove1 bullet l) = trim r"
      by (simp add: l)
    from ne have ne': "trim r \<noteq> []" by (simp add: l)
    show ?thesis
      using IH kept ev pr ne' by simp
  qed
qed

text \<open>
  Claim C10, as the code has it. For a section name of letters, digits and spaces, the
  two \<open>extractSection\<close> methods return the same list whenever every line of the matched
  section whose trimmed text starts with the bullet or with a hyphen has the bullet as its
  first character and text other than white space after it.
\<close>

theorem extractSection_agree_on_plain_bullets:
  assumes "plainSectionName sectionName"
      and "\<forall>line \<in> set (sectionLines text sectionName).
             startsWith (trim line) [bullet] \<or> startsWith (trim line) [hyphen]
               \<longrightarrow> startsWith line [bullet] \<and> trim (tl line) \<noteq> []"
  shows "evaluator_extractSection text sectionName = processor_extractSection text sectionName"
proof (cases "sectionMatch (str ''## '' @ sectionName) text")
  case None
  then show ?thesis
    by (simp add: evaluator_extractSection_def processor_extractSection_def)
next
  case (Some body)
  with assms(2) have "\<forall>line \<in> set (splitLines body).
             startsWith (trim line) [bullet] \<or> startsWith (trim line) [hyphen]
               \<longrightarrow> startsWith line [bullet] \<and> trim (tl line) \<noteq> []"
    by (simp add: sectionLines_def)
  from lines_agree [OF this] Some show ?thesis
    by (simp add: evaluator_extractSection_def processor_extractSection_def)
qed

lemma sample_section_lines:
  "sectionLines sampleDescription (str ''Functional Requirements'') =
     [[], bullet # str '' Users can log in'', bullet # str '' Sessions expire'', [], []]"
  by (simp add: sectionLines_def sampleDescription_def eval_defs)

lemma sample_processor_section:
  "processor_extractSection sampleDescription (str ''Functional Requirements'') =
     [str ''Users can log in'', str ''Sessions expire'']"
  by (simp add: processor_extractSection_def sampleDescription_def eval_defs)

text \<open>The section \<open>Functional Requirements\<close> of the sample criteria issue.\<close>

theorem extractSection_agree_on_plain_bullets_witness:
  "evaluator_extractSection sampleDescription (str ''Functional Requirements'')
     = [str ''Users can log in'', str ''Sessions expire'']
   \<and> processor_extractSection sampleDescription (str ''Functional Requirements'')
     = [str ''Users can log in'', str ''Sessions expire'']"
proof -
  have name: "plainSectionName (str ''Functional Requirements'')"
    by (simp add: plainSectionName_def eval_defs)
  have lines: "\<forall>line \<in> set (sectionLines sampleDescription (str ''Functional Requirements'')).
             startsWith (trim line) [bullet] \<or> startsWith (trim line) [hyphen]
               \<longrightarrow> startsWith line [bullet] \<and> trim (tl line) \<noteq> []"
    unfolding sample_section_lines by (simp add: eval_defs)
  from extractSection_agree_on_plain_bullets [OF name lines] sample_processor_section
  show ?thesis by simp
qed

text \<open>
  The claim as stated fails. A section whose item is written with a hyphen is empty for
  the processor and has one item for the evaluator; an indented bullet keeps its bullet
  in the evaluator's item and loses it in the processor's.
\<close>

theorem extractSection_differ_counterexample:
  "processor_extractSection (str ''## Functional Requirements'' @ [newline] @ str ''- item'')
      (str ''Functional Requirements'') = []
   \<and> evaluator_extractSection (str ''## Functional Requirements'' @ [newline] @ str ''- item'')
      (str ''Functional Requirements'') = [str ''item'']
   \<and> processor_extractSection (str ''## Functional Requirements'' @ [newline] @ str ''- item'')
      (str ''Functional Requirements'')
     \<noteq> evaluator_extractSection
         (str ''## Functional Requirements'' @ [newline] @ str ''- item'')
         (str ''Functional Requirements'')"
  by (simp add: processor_extractSection_def evaluator_extractSection_def eval_defs)

lemma example_indented_bullet:
  "processor_extractSection (str ''## Done'' @ [newline, 32, bullet] @ str '' a'') (str ''Done'')
     = [str ''a'']"
  "evaluator_extractSection (str ''## Done'' @ [newline, 32, bullet] @ str '' a'') (str ''Done'')
     = [[bullet, 32] @ str ''a'']"
  by (simp_all add: processor_extractSection_def evaluator_extractSection_def eval_defs)


end
